theory Spec2Isabelle
  imports Complex_Main
begin

section \<open>Quality Assessor (image_processor_advanced.py, check_image_quality)\<close>

text \<open>
  The measurements that \<^verbatim>\<open>check_image_quality\<close> takes from the raster with numpy and
  OpenCV (mean of the luminance plane, variance of the Laplacian, standard deviation, and
  the shape of the plane) are the inputs of the model. They are finite floating point
  numbers in the source; the model takes them as rationals, and the code only compares
  them with constants. The \<^verbatim>\<open>metrics\<close> entry of the report, which only echoes the
  rounded measurements, is left out of the report.
\<close>

record quality_metrics =
  mean_brightness :: rat
  laplacian_var :: rat
  contrast :: rat
  width :: int
  height :: int

record quality_report =
  suitable :: bool
  quality_score :: int
  issues :: "string list"

definition brightness_issues :: "rat \<Rightarrow> string list" where
  "brightness_issues b =
     (if b < 40 then [''Image too dark - use better lighting'']
      else if b > 215 then [''Image too bright/overexposed - reduce lighting'']
      else [])"

definition blur_issues :: "rat \<Rightarrow> string list" where
  "blur_issues v =
     (if v < 100 then [''Image too blurry - hold camera steady and focus on text''] else [])"

definition contrast_issues :: "rat \<Rightarrow> string list" where
  "contrast_issues c =
     (if c < 30 then [''Low contrast - improve lighting or try different angle''] else [])"

definition resolution_issues :: "int \<Rightarrow> int \<Rightarrow> string list" where
  "resolution_issues w h =
     (if w < 800 \<or> h < 600 then [''Image resolution too low - get closer to the text'']
      else [])"

definition raw_quality_score :: "quality_metrics \<Rightarrow> int" where
  "raw_quality_score m =
     (let s0 = 100;
          s1 = (if mean_brightness m < 40 \<or> mean_brightness m > 215 then s0 - 30 else s0);
          s2 = (if laplacian_var m < 100 then s1 - 40 else s1);
          s3 = (if contrast m < 30 then s2 - 20 else s2);
          s4 = (if width m < 800 then s3 - 10 else s3)
      in s4)"

definition check_image_quality :: "quality_metrics \<Rightarrow> quality_report" where
  "check_image_quality m =
     (let issues = brightness_issues (mean_brightness m) @ blur_issues (laplacian_var m)
                   @ contrast_issues (contrast m) @ resolution_issues (width m) (height m)
      in \<lparr> suitable = (length issues = 0),
           quality_score = max 0 (raw_quality_score m),
           issues = issues \<rparr>)"

section \<open>Python strings\<close>

text \<open>
  A Python \<^verbatim>\<open>str\<close> is modelled as a \<^typ>\<open>string\<close> whose characters stand for the code
  points 0 to 255 (\<^term>\<open>of_char c\<close> is the code point). The classification functions
  below are Python's on that range.
\<close>

definition py_isspace :: "char \<Rightarrow> bool" where
  "py_isspace c =
     (let n = (of_char c :: nat)
      in (9 \<le> n \<and> n \<le> 13) \<or> (28 \<le> n \<and> n \<le> 32) \<or> n = 133 \<or> n = 160)"

definition py_strip :: "string \<Rightarrow> string" where
  "py_strip s = rev (dropWhile py_isspace (rev (dropWhile py_isspace s)))"

definition digit_char :: "nat \<Rightarrow> char" where
  "digit_char d = char_of (48 + d)"

fun str_nat :: "nat \<Rightarrow> string" where
  "str_nat n = (if n < 10 then [digit_char n] else str_nat (n div 10) @ [digit_char (n mod 10)])"

section \<open>Python floats: the true division of integers\<close>

text \<open>
  \<^verbatim>\<open>a / b\<close> on two Python integers is the double nearest to the quotient, ties going to
  the even significand. \<open>round_to_double\<close> rounds a rational to 53 significant bits in
  that way: \<open>floor_log2 q\<close> is the exponent \<open>e\<close> with \<open>2^e \<le> q < 2^(e+1)\<close>,
  found from the bit lengths of numerator and denominator, and the result is the multiple
  of \<open>2^(e-52)\<close> nearest to \<open>q\<close>. The limits of the exponent of a double are not
  modelled. The quotient that the program forms is that of a sum of positive integers by
  their number: it is at least 1, so that no subnormal double arises, and it exceeds the
  largest double (about \<open>1.8e308\<close>, where Python raises \<^verbatim>\<open>OverflowError\<close>) only when a
  confidence does, which is excluded wherever confidences are at most 100.
\<close>

fun bit_length :: "nat \<Rightarrow> nat" where
  "bit_length n = (if n = 0 then 0 else Suc (bit_length (n div 2)))"

definition floor_log2 :: "rat \<Rightarrow> int" where
  "floor_log2 q =
     (case quotient_of q of
        (a, b) \<Rightarrow>
          (let d = int (bit_length (nat a)) - int (bit_length (nat b))
           in if power_int 2 d \<le> q then d else d - 1))"

definition round_half_even :: "rat \<Rightarrow> int" where
  "round_half_even x =
     (let f = \<lfloor>x\<rfloor>; r = x - of_int f
      in if r < 1 / 2 then f else if 1 / 2 < r then f + 1 else if even f then f else f + 1)"

definition round_to_double :: "rat \<Rightarrow> rat" where
  "round_to_double q =
     (if q = 0 then 0
      else (let e = floor_log2 \<bar>q\<bar>; ulp = power_int 2 (e - 52)
            in of_int (round_half_even (q / ulp)) * ulp))"

section \<open>Recognition Engine and Result Selector (ocr_service_advanced.py)\<close>

text \<open>
  The OCR engine is an external collaborator. A call of \<^verbatim>\<open>pytesseract.image_to_string\<close>
  or \<^verbatim>\<open>pytesseract.image_to_data\<close> either raises or returns; the model takes both as
  functions of the image and the segmentation mode. An entry of \<^verbatim>\<open>data['conf']\<close> is
  either something \<^verbatim>\<open>int()\<close> accepts or something on which it raises; an entry of
  \<^verbatim>\<open>data['text']\<close> is a string or something without a \<^verbatim>\<open>strip\<close> method.
\<close>

datatype 'a attempt = Raised | Returned 'a

datatype conf_entry = ConfInt int | ConfBad

datatype text_entry = TextStr string | TextOther

record ocr_data =
  data_conf :: "conf_entry list"
  data_text :: "text_entry list"

record 'img tesseract =
  image_to_string :: "'img \<Rightarrow> nat \<Rightarrow> string attempt"
  image_to_data :: "'img \<Rightarrow> nat \<Rightarrow> ocr_data attempt"

record recognition_result =
  ocr_text :: string
  confidence :: rat
  word_count :: int
  ocr_method :: string

definition psm_modes :: "nat list" where
  "psm_modes = [6, 3, 4, 11, 12]"

text \<open>\<^verbatim>\<open>[int(c) for c in data['conf'] if int(c) > 0]\<close>: raises when one entry is bad.\<close>

fun positive_confidences :: "conf_entry list \<Rightarrow> int list attempt" where
  "positive_confidences [] = Returned []"
| "positive_confidences (ConfBad # cs) = Raised"
| "positive_confidences (ConfInt c # cs) =
     (case positive_confidences cs of
        Raised \<Rightarrow> Raised
      | Returned ps \<Rightarrow> Returned (if c > 0 then c # ps else ps))"

text \<open>\<^verbatim>\<open>[w for w in data['text'] if w.strip()]\<close>: raises when one entry is no string.\<close>

fun nonblank_words :: "text_entry list \<Rightarrow> string list attempt" where
  "nonblank_words [] = Returned []"
| "nonblank_words (TextOther # ws) = Raised"
| "nonblank_words (TextStr w # ws) =
     (case nonblank_words ws of
        Raised \<Rightarrow> Raised
      | Returned vs \<Rightarrow> Returned (if py_strip w \<noteq> [] then w # vs else vs))"

text \<open>
  \<^verbatim>\<open>sum(confidences) / len(confidences) if confidences else 0\<close>: the sum and the length
  are integers, and their true division is a double.
\<close>

definition average_confidence :: "int list \<Rightarrow> rat" where
  "average_confidence confidences =
     (if confidences \<noteq> []
      then round_to_double (of_int (sum_list confidences) / of_int (int (length confidences)))
      else 0)"

text \<open>The result is \<open>None\<close> exactly when the body of the \<^verbatim>\<open>try\<close> raised.\<close>

definition ocr_single_pass ::
  "'img tesseract \<Rightarrow> 'img \<Rightarrow> nat \<Rightarrow> string \<Rightarrow> recognition_result option" where
  "ocr_single_pass eng img psm_mode method_name =
     (case image_to_string eng img psm_mode of
        Raised \<Rightarrow> None
      | Returned text_v \<Rightarrow>
          (case image_to_data eng img psm_mode of
             Raised \<Rightarrow> None
           | Returned data \<Rightarrow>
               (case positive_confidences (data_conf data) of
                  Raised \<Rightarrow> None
                | Returned confidences \<Rightarrow>
                    (case nonblank_words (data_text data) of
                       Raised \<Rightarrow> None
                     | Returned ws \<Rightarrow>
                         Some \<lparr> ocr_text = text_v,
                                confidence = average_confidence confidences,
                                word_count = int (length ws),
                                ocr_method = method_name @ ''_psm'' @ str_nat psm_mode \<rparr>))))"

text \<open>
  \<^verbatim>\<open>if result: results.append(result)\<close>. A returned result is a dictionary with four
  keys, which is true in a condition whatever its values are; only \<open>None\<close> is skipped.
\<close>

definition append_if_truthy ::
  "recognition_result list \<Rightarrow> recognition_result option \<Rightarrow> recognition_result list" where
  "append_if_truthy results result =
     (case result of None \<Rightarrow> results | Some r \<Rightarrow> results @ [r])"

definition passes_over_modes ::
  "'img tesseract \<Rightarrow> 'img \<Rightarrow> string \<Rightarrow> recognition_result list \<Rightarrow> recognition_result list" where
  "passes_over_modes eng img method_name results =
     foldl (\<lambda>acc psm. append_if_truthy acc (ocr_single_pass eng img psm method_name))
       results psm_modes"

definition collect_results ::
  "'img tesseract \<Rightarrow> 'img \<Rightarrow> (string \<times> 'img) list option \<Rightarrow> recognition_result list" where
  "collect_results eng img0 preprocessed_variations =
     (case preprocessed_variations of
        Some (v # vs) \<Rightarrow>
          foldl (\<lambda>acc (method_name, img). passes_over_modes eng img method_name acc) [] (v # vs)
      | _ \<Rightarrow> passes_over_modes eng img0 ''default'' [])"

text \<open>
  \<^verbatim>\<open>max(results, key=lambda x: x['confidence'])\<close>: Python keeps the first of the
  elements with the largest key, replacing the running maximum only by a strictly larger
  one.
\<close>

fun py_max_by :: "('a \<Rightarrow> 'k::linorder) \<Rightarrow> 'a \<Rightarrow> 'a list \<Rightarrow> 'a" where
  "py_max_by key best [] = best"
| "py_max_by key best (x # xs) = py_max_by key (if key best < key x then x else best) xs"

definition select_best :: "recognition_result list \<Rightarrow> string" where
  "select_best results =
     (case results of
        [] \<Rightarrow> ''''
      | r # rs \<Rightarrow> ocr_text (py_max_by confidence r rs))"

definition extract_text_robust ::
  "'img tesseract \<Rightarrow> 'img \<Rightarrow> (string \<times> 'img) list option \<Rightarrow> string" where
  "extract_text_robust eng img0 preprocessed_variations =
     select_best (collect_results eng img0 preprocessed_variations)"

section \<open>Python strings: case, classes, split and replace\<close>

text \<open>
  On the code points 0 to 255 the lower case form of an upper case letter is 32 code
  points above it. The letters whose other case lies beyond code point 255 are left as
  they are.
\<close>

definition py_isupper :: "char \<Rightarrow> bool" where
  "py_isupper c =
     (let n = (of_char c :: nat)
      in (65 \<le> n \<and> n \<le> 90) \<or> (192 \<le> n \<and> n \<le> 222 \<and> n \<noteq> 215))"

definition py_islower_paired :: "char \<Rightarrow> bool" where
  "py_islower_paired c =
     (let n = (of_char c :: nat)
      in (97 \<le> n \<and> n \<le> 122) \<or> (224 \<le> n \<and> n \<le> 254 \<and> n \<noteq> 247))"

definition py_lower_char :: "char \<Rightarrow> char" where
  "py_lower_char c =
     (if py_isupper c then char_of ((of_char c :: nat) + 32) else c)"

definition py_upper_char :: "char \<Rightarrow> char" where
  "py_upper_char c =
     (if py_islower_paired c then char_of ((of_char c :: nat) - 32) else c)"

definition py_lower :: "string \<Rightarrow> string" where
  "py_lower s = map py_lower_char s"

text \<open>The character classes of \<^verbatim>\<open>re\<close> for \<^verbatim>\<open>str\<close> patterns: \<^verbatim>\<open>\d\<close>, \<^verbatim>\<open>\w\<close> (\<^verbatim>\<open>\s\<close> is \<^const>\<open>py_isspace\<close>).\<close>

definition re_isdigit :: "char \<Rightarrow> bool" where
  "re_isdigit c = (let n = (of_char c :: nat) in 48 \<le> n \<and> n \<le> 57)"

definition re_isword :: "char \<Rightarrow> bool" where
  "re_isword c =
     (let n = (of_char c :: nat)
      in (48 \<le> n \<and> n \<le> 57) \<or> (65 \<le> n \<and> n \<le> 90) \<or> n = 95 \<or> (97 \<le> n \<and> n \<le> 122)
         \<or> n = 170 \<or> n = 178 \<or> n = 179 \<or> n = 181 \<or> n = 185 \<or> n = 186
         \<or> (188 \<le> n \<and> n \<le> 190) \<or> (192 \<le> n \<and> n \<le> 214) \<or> (216 \<le> n \<and> n \<le> 246)
         \<or> 248 \<le> n)"

text \<open>\<^verbatim>\<open>s.split(sep)\<close> for a separator of one character.\<close>

fun py_split :: "char \<Rightarrow> string \<Rightarrow> string list" where
  "py_split sep [] = [[]]"
| "py_split sep (c # cs) =
     (if c = sep then [] # py_split sep cs
      else (case py_split sep cs of
              [] \<Rightarrow> [[c]]
            | w # ws \<Rightarrow> (c # w) # ws))"

text \<open>
  \<^verbatim>\<open>s.replace(old, new)\<close>: the occurrences of \<open>old\<close> are replaced from left to right
  without overlap; with an empty \<open>old\<close>, \<open>new\<close> is put before every character and at
  the end.
\<close>

function py_replace :: "string \<Rightarrow> string \<Rightarrow> string \<Rightarrow> string" where
  "py_replace old new s =
     (if old = [] then new @ concat (map (\<lambda>c. c # new) s)
      else (case s of
              [] \<Rightarrow> []
            | c # cs \<Rightarrow>
                if take (length old) s = old
                then new @ py_replace old new (drop (length old) s)
                else c # py_replace old new cs))"
  by pat_completeness auto
termination
  by (relation "measure (\<lambda>(old, new, s). length s)") auto

text \<open>
  \<^verbatim>\<open>int(s)\<close> and \<^verbatim>\<open>float(s)\<close> on the strings the patterns below capture: a run of
  digits, and a run of digits with an optional point and further digits. On any other
  string the model raises \<^verbatim>\<open>ValueError\<close> (\<open>None\<close>); the limit that some Python versions
  put on the number of digits of \<^verbatim>\<open>int\<close> is not modelled, and the value of
  \<^verbatim>\<open>float\<close> is the exact decimal value.
\<close>

definition digit_val :: "char \<Rightarrow> nat" where
  "digit_val c = of_char c - 48"

definition digits_val :: "string \<Rightarrow> nat" where
  "digits_val s = foldl (\<lambda>acc c. 10 * acc + digit_val c) 0 s"

definition py_int :: "string \<Rightarrow> int option" where
  "py_int s = (if s \<noteq> [] \<and> list_all re_isdigit s then Some (int (digits_val s)) else None)"

definition py_float :: "string \<Rightarrow> rat option" where
  "py_float s =
     (let ip = takeWhile re_isdigit s; r = dropWhile re_isdigit s
      in if ip = [] then None
         else (case r of
                 [] \<Rightarrow> Some (of_nat (digits_val ip))
               | c # fp \<Rightarrow>
                   if c = CHR ''.'' \<and> list_all re_isdigit fp
                   then Some (of_nat (digits_val ip) + of_nat (digits_val fp) / 10 ^ length fp)
                   else None))"

section \<open>Regular expressions (the part of Python's \<^verbatim>\<open>re\<close> that the patterns use)\<close>

text \<open>
  A pattern is a syntax tree. \<open>Lit\<close> is a run of literal characters, \<open>Cls\<close> a character
  set \<^verbatim>\<open>[...]\<close> or, negated, \<^verbatim>\<open>[^...]\<close> (a single class escape such as \<^verbatim>\<open>\s\<close> is
  the set of that one class), \<open>Opt\<close> is \<^verbatim>\<open>?\<close>, \<open>AtLeast n\<close> is \<^verbatim>\<open>{n,}\<close> (so
  \<^verbatim>\<open>*\<close> is \<open>AtLeast 0\<close> and \<^verbatim>\<open>+\<close> is \<open>AtLeast 1\<close>), \<open>Group\<close> is the capturing group
  number 1 (no pattern of the program has a second one), \<open>NotAhead\<close> is \<^verbatim>\<open>(?!...)\<close> and
  \<open>WordBoundary\<close> is \<^verbatim>\<open>\b\<close>. Non-capturing groups \<^verbatim>\<open>(?:...)\<close> are the structure of
  the tree.
\<close>

datatype cset_item = CChar char | CRange char char | CSpace | CDigit | CWord

datatype regex =
    Lit string
  | Cls bool "cset_item list"
  | Seq regex regex
  | Alt regex regex
  | Opt regex
  | AtLeast nat regex
  | Group regex
  | NotAhead regex
  | WordBoundary

definition Star :: "regex \<Rightarrow> regex" where
  "Star r = AtLeast 0 r"

definition Plus :: "regex \<Rightarrow> regex" where
  "Plus r = AtLeast (Suc 0) r"

fun in_item :: "cset_item \<Rightarrow> char \<Rightarrow> bool" where
  "in_item (CChar a) c = (c = a)"
| "in_item (CRange a b) c = ((of_char a :: nat) \<le> of_char c \<and> (of_char c :: nat) \<le> of_char b)"
| "in_item CSpace c = py_isspace c"
| "in_item CDigit c = re_isdigit c"
| "in_item CWord c = re_isword c"

text \<open>
  With \<^verbatim>\<open>re.IGNORECASE\<close> a literal matches a character with the same lower case form,
  and a set matches a character when it holds the character or its other case.
\<close>

definition lit_char_matches :: "bool \<Rightarrow> char \<Rightarrow> char \<Rightarrow> bool" where
  "lit_char_matches ic a c = (if ic then py_lower_char c = py_lower_char a else c = a)"

definition cls_matches :: "bool \<Rightarrow> bool \<Rightarrow> cset_item list \<Rightarrow> char \<Rightarrow> bool" where
  "cls_matches ic negated items c =
     (let inside = list_ex (\<lambda>i. in_item i c
                              \<or> (ic \<and> (in_item i (py_lower_char c) \<or> in_item i (py_upper_char c))))
                     items
      in if negated then \<not> inside else inside)"

text \<open>
  A Python \<^verbatim>\<open>str\<close> holds Unicode characters, and the text that the extractors receive
  comes from an OCR engine. What the matcher and the calorie extractor take from Python's
  Unicode tables is therefore a parameter, over any type \<open>'c\<close> of characters:
  \<open>from_char\<close> is the character with the code point of an 8-bit character;
  \<open>literal_matches ic a c\<close> says whether the pattern character \<open>a\<close> matches the text
  character \<open>c\<close> (with \<^verbatim>\<open>re.IGNORECASE\<close> when \<open>ic\<close> holds);
  \<open>set_matches ic negated items c\<close> says the same of a character set;
  \<open>word_char\<close> is \<^verbatim>\<open>\w\<close>; \<open>lower_text\<close> is \<^verbatim>\<open>str.lower\<close>; \<open>parse_int\<close> is
  \<^verbatim>\<open>int\<close> on a string (\<open>None\<close> for \<^verbatim>\<open>ValueError\<close>).
  \<open>latin1\<close> below gives these operations on the code points 0 to 255, by the functions
  of the sections above; the extractors other than the calorie extractor are modelled on
  these code points only.
\<close>

record 'c char_ops =
  from_char :: "char \<Rightarrow> 'c"
  literal_matches :: "bool \<Rightarrow> char \<Rightarrow> 'c \<Rightarrow> bool"
  set_matches :: "bool \<Rightarrow> bool \<Rightarrow> cset_item list \<Rightarrow> 'c \<Rightarrow> bool"
  word_char :: "'c \<Rightarrow> bool"
  lower_text :: "'c list \<Rightarrow> 'c list"
  parse_int :: "'c list \<Rightarrow> int option"

definition latin1 :: "char char_ops" where
  "latin1 =
     \<lparr> from_char = (\<lambda>c. c),
       literal_matches = lit_char_matches,
       set_matches = cls_matches,
       word_char = re_isword,
       lower_text = py_lower,
       parse_int = py_int \<rparr>"

text \<open>A state of the matcher: the character before the position, the text from the
  position on, and what group 1 has captured.\<close>

record 'c re_state =
  prev_char :: "'c option"
  remaining :: "'c list"
  group1 :: "'c list option"

fun match_lit_in :: "'c char_ops \<Rightarrow> bool \<Rightarrow> string \<Rightarrow> 'c re_state \<Rightarrow> 'c re_state list" where
  "match_lit_in ops ic [] st = [st]"
| "match_lit_in ops ic (a # as) st =
     (case remaining st of
        [] \<Rightarrow> []
      | c # cs \<Rightarrow>
          if literal_matches ops ic a c
          then match_lit_in ops ic as (st\<lparr> prev_char := Some c, remaining := cs \<rparr>)
          else [])"

text \<open>
  The matcher returns the states after every way of matching, in the order in which a
  backtracking matcher tries them: the head of the list is the match that Python finds.
  A greedy repetition tries one more round before it tries to stop. The number of rounds
  is bounded by the length of the remaining text, since a round that consumes nothing is
  not repeated.
\<close>

primrec repeat_exact ::
  "('c re_state \<Rightarrow> 'c re_state list) \<Rightarrow> nat \<Rightarrow> 'c re_state \<Rightarrow> 'c re_state list" where
  "repeat_exact f 0 st = [st]"
| "repeat_exact f (Suc n) st = concat (map (repeat_exact f n) (f st))"

primrec repeat_greedy ::
  "('c re_state \<Rightarrow> 'c re_state list) \<Rightarrow> nat \<Rightarrow> 'c re_state \<Rightarrow> 'c re_state list" where
  "repeat_greedy f 0 st = [st]"
| "repeat_greedy f (Suc n) st =
     concat (map (repeat_greedy f n)
               (filter (\<lambda>st'. length (remaining st') < length (remaining st)) (f st)))
     @ [st]"

definition consumed :: "'c re_state \<Rightarrow> 'c re_state \<Rightarrow> 'c list" where
  "consumed st st' = take (length (remaining st) - length (remaining st')) (remaining st)"

definition at_word_boundary_in :: "'c char_ops \<Rightarrow> 'c re_state \<Rightarrow> bool" where
  "at_word_boundary_in ops st =
     ((case prev_char st of None \<Rightarrow> False | Some c \<Rightarrow> word_char ops c)
      \<noteq> (case remaining st of [] \<Rightarrow> False | c # cs \<Rightarrow> word_char ops c))"

primrec re_match_in :: "'c char_ops \<Rightarrow> regex \<Rightarrow> bool \<Rightarrow> 'c re_state \<Rightarrow> 'c re_state list" where
  "re_match_in ops (Lit s) ic st = match_lit_in ops ic s st"
| "re_match_in ops (Cls negated items) ic st =
     (case remaining st of
        [] \<Rightarrow> []
      | c # cs \<Rightarrow>
          if set_matches ops ic negated items c
          then [st\<lparr> prev_char := Some c, remaining := cs \<rparr>]
          else [])"
| "re_match_in ops (Seq a b) ic st = concat (map (re_match_in ops b ic) (re_match_in ops a ic st))"
| "re_match_in ops (Alt a b) ic st = re_match_in ops a ic st @ re_match_in ops b ic st"
| "re_match_in ops (Opt a) ic st = re_match_in ops a ic st @ [st]"
| "re_match_in ops (AtLeast n a) ic st =
     concat (map (\<lambda>st'. repeat_greedy (re_match_in ops a ic) (length (remaining st')) st')
               (repeat_exact (re_match_in ops a ic) n st))"
| "re_match_in ops (Group a) ic st =
     map (\<lambda>st'. st'\<lparr> group1 := Some (consumed st st') \<rparr>) (re_match_in ops a ic st)"
| "re_match_in ops (NotAhead a) ic st = (if re_match_in ops a ic st = [] then [st] else [])"
| "re_match_in ops WordBoundary ic st = (if at_word_boundary_in ops st then [st] else [])"

text \<open>
  \<^verbatim>\<open>re.search\<close>: the first position, from the left, at which the pattern matches. The
  match object is modelled by the text before the match, the matched text
  (\<^verbatim>\<open>group(0)\<close>), the text after it, and \<^verbatim>\<open>group(1)\<close> (\<open>None\<close> as in Python when the
  group took no part in the match).
\<close>

record 'c re_match_object =
  before_match :: "'c list"
  group0 :: "'c list"
  after_match :: "'c list"
  group_1 :: "'c list option"

fun search_from_in ::
  "'c char_ops \<Rightarrow> regex \<Rightarrow> bool \<Rightarrow> 'c list \<Rightarrow> 'c option \<Rightarrow> 'c list \<Rightarrow> 'c re_match_object option" where
  "search_from_in ops r ic skipped prev s =
     (case re_match_in ops r ic \<lparr> prev_char = prev, remaining = s, group1 = None \<rparr> of
        st # sts \<Rightarrow>
          Some \<lparr> before_match = rev skipped,
                 group0 = consumed \<lparr> prev_char = prev, remaining = s, group1 = None \<rparr> st,
                 after_match = remaining st,
                 group_1 = group1 st \<rparr>
      | [] \<Rightarrow>
          (case s of
             [] \<Rightarrow> None
           | c # cs \<Rightarrow> search_from_in ops r ic (c # skipped) (Some c) cs))"

definition re_search_in :: "'c char_ops \<Rightarrow> regex \<Rightarrow> bool \<Rightarrow> 'c list \<Rightarrow> 'c re_match_object option" where
  "re_search_in ops r ic s = search_from_in ops r ic [] None s"

text \<open>The matcher and the search on the code points 0 to 255.\<close>

definition re_match :: "regex \<Rightarrow> bool \<Rightarrow> char re_state \<Rightarrow> char re_state list" where
  "re_match r ic st = re_match_in latin1 r ic st"

definition re_search :: "regex \<Rightarrow> bool \<Rightarrow> string \<Rightarrow> char re_match_object option" where
  "re_search r ic s = re_search_in latin1 r ic s"

section \<open>JSON values and Python dictionaries\<close>

text \<open>
  The records that the program builds, and the product that the database returns, are
  Python dictionaries of JSON values. A dictionary is an association list in insertion
  order; \<^verbatim>\<open>d.get(k)\<close> is the first entry of the key.
\<close>

datatype json =
    JNull
  | JBool bool
  | JInt int
  | JFloat rat
  | JStr string
  | JArr "json list"
  | JObj "(string \<times> json) list"

definition dict_keys :: "json \<Rightarrow> string list" where
  "dict_keys j = (case j of JObj kvs \<Rightarrow> map fst kvs | _ \<Rightarrow> [])"

text \<open>\<^verbatim>\<open>d[k] = v\<close>: an existing key keeps its place, a new key goes to the end.\<close>

fun dict_set :: "(string \<times> json) list \<Rightarrow> string \<Rightarrow> json \<Rightarrow> (string \<times> json) list" where
  "dict_set [] k v = [(k, v)]"
| "dict_set ((k', v') # kvs) k v =
     (if k' = k then (k, v) # kvs else (k', v') # dict_set kvs k v)"

definition bind_attempt :: "'a attempt \<Rightarrow> ('a \<Rightarrow> 'b attempt) \<Rightarrow> 'b attempt" where
  "bind_attempt a f = (case a of Raised \<Rightarrow> Raised | Returned x \<Rightarrow> f x)"

section \<open>Field Extractor (text_processor.py)\<close>

fun seqs :: "regex list \<Rightarrow> regex" where
  "seqs [] = Lit []"
| "seqs [r] = r"
| "seqs (r # rs) = Seq r (seqs rs)"

definition re_space :: regex where
  "re_space = Cls False [CSpace]"

definition re_digit :: regex where
  "re_digit = Cls False [CDigit]"

definition not_newline :: regex where
  "not_newline = Cls True [CChar (CHR 0x0A)]"

text \<open>\<^verbatim>\<open>(?:kcal|cal)\<close>\<close>

definition kcal_or_cal :: regex where
  "kcal_or_cal = Alt (Lit ''kcal'') (Lit ''cal'')"

text \<open>
  \<^verbatim>\<open>calories?\s*:?\s*(\d+)\<close>,
  \<^verbatim>\<open>energy\s*:?\s*(\d+)\s*(?:kcal|cal)\<close>,
  \<^verbatim>\<open>(\d+)\s*(?:kcal|cal)\<close>,
  \<^verbatim>\<open>caloric\s+value\s*:?\s*(\d+)\<close>
\<close>

definition calorie_patterns :: "regex list" where
  "calorie_patterns =
     [seqs [Lit ''calorie'', Opt (Lit ''s''), Star re_space, Opt (Lit '':''), Star re_space, Group (Plus re_digit)],
      seqs [Lit ''energy'', Star re_space, Opt (Lit '':''), Star re_space, Group (Plus re_digit), Star re_space,
            kcal_or_cal],
      seqs [Group (Plus re_digit), Star re_space, kcal_or_cal],
      seqs [Lit ''caloric'', Plus re_space, Lit ''value'', Star re_space, Opt (Lit '':''), Star re_space,
            Group (Plus re_digit)]]"

text \<open>
  \<^verbatim>\<open>serving\s+size\s*:?\s*([^\n]+)\<close>,
  \<^verbatim>\<open>portion\s*:?\s*([^\n]+)\<close>,
  \<^verbatim>\<open>per\s+(\d+\s*(?:g|ml|oz|cup))\<close>
\<close>

definition serving_patterns :: "regex list" where
  "serving_patterns =
     [seqs [Lit ''serving'', Plus re_space, Lit ''size'', Star re_space, Opt (Lit '':''), Star re_space,
            Group (Plus not_newline)],
      seqs [Lit ''portion'', Star re_space, Opt (Lit '':''), Star re_space, Group (Plus not_newline)],
      seqs [Lit ''per'', Plus re_space,
            Group (seqs [Plus re_digit, Star re_space,
                         Alt (Lit ''g'') (Alt (Lit ''ml'') (Alt (Lit ''oz'') (Lit ''cup'')))])]]"

text \<open>
  \<^verbatim>\<open>ingredients?\s*:?\s*([^\n]+(?:\n(?![A-Z]{2,})[^\n]+)*)\<close>,
  \<^verbatim>\<open>contains?\s*:?\s*([^\n]+)\<close>
\<close>

definition ingredient_patterns :: "regex list" where
  "ingredient_patterns =
     [seqs [Lit ''ingredient'', Opt (Lit ''s''), Star re_space, Opt (Lit '':''), Star re_space,
            Group (Seq (Plus not_newline)
                       (Star (seqs [Lit [CHR 0x0A],
                                    NotAhead (AtLeast 2 (Cls False [CRange CHR ''A'' CHR ''Z''])),
                                    Plus not_newline])))],
      seqs [Lit ''contain'', Opt (Lit ''s''), Star re_space, Opt (Lit '':''), Star re_space,
            Group (Plus not_newline)]]"

definition calories_found :: "int \<Rightarrow> json" where
  "calories_found v = JObj [(''value'', JInt v), (''unit'', JStr ''kcal''), (''found'', JBool True)]"

definition calories_not_found :: json where
  "calories_not_found = JObj [(''value'', JNull), (''unit'', JStr ''kcal''), (''found'', JBool False)]"

text \<open>
  The loop of \<^verbatim>\<open>_extract_calories\<close> over the patterns. \<^verbatim>\<open>int(match.group(1))\<close>
  raises \<^verbatim>\<open>TypeError\<close>, which the function does not catch, when the group is
  \<open>None\<close>, and \<^verbatim>\<open>ValueError\<close>, on which the loop goes on, when the string is no
  integer.
\<close>

fun calories_loop_in :: "'c char_ops \<Rightarrow> regex list \<Rightarrow> 'c list \<Rightarrow> json attempt" where
  "calories_loop_in ops [] text_lower = Returned calories_not_found"
| "calories_loop_in ops (pattern # patterns) text_lower =
     (case re_search_in ops pattern True text_lower of
        None \<Rightarrow> calories_loop_in ops patterns text_lower
      | Some m \<Rightarrow>
          (case group_1 m of
             None \<Rightarrow> Raised
           | Some g \<Rightarrow>
               (case parse_int ops g of
                  None \<Rightarrow> calories_loop_in ops patterns text_lower
                | Some calorie_value \<Rightarrow> Returned (calories_found calorie_value))))"

definition extract_calories_in :: "'c char_ops \<Rightarrow> 'c list \<Rightarrow> json attempt" where
  "extract_calories_in ops text_v = calories_loop_in ops calorie_patterns (lower_text ops text_v)"

text \<open>The calorie extractor on the code points 0 to 255, as the other extractors are.\<close>

definition extract_calories :: "string \<Rightarrow> json attempt" where
  "extract_calories text_v = extract_calories_in latin1 text_v"

fun serving_loop :: "regex list \<Rightarrow> string \<Rightarrow> json attempt" where
  "serving_loop [] text_lower = Returned (JObj [(''value'', JNull), (''found'', JBool False)])"
| "serving_loop (pattern # patterns) text_lower =
     (case re_search pattern True text_lower of
        None \<Rightarrow> serving_loop patterns text_lower
      | Some m \<Rightarrow>
          (case group_1 m of
             None \<Rightarrow> Raised
           | Some g \<Rightarrow> Returned (JObj [(''value'', JStr (py_strip g)), (''found'', JBool True)])))"

definition extract_serving_size :: "string \<Rightarrow> json attempt" where
  "extract_serving_size text_v = serving_loop serving_patterns (py_lower text_v)"

text \<open>\<^verbatim>\<open>re.split(r'[,;]', s)\<close>: the pieces between the separators, empty pieces included.\<close>

fun split_separators :: "string \<Rightarrow> string list" where
  "split_separators [] = [[]]"
| "split_separators (c # cs) =
     (if cls_matches False False [CChar CHR '','', CChar CHR '';''] c
      then [] # split_separators cs
      else (case split_separators cs of
              [] \<Rightarrow> [[c]]
            | p # ps \<Rightarrow> (c # p) # ps))"

fun ingredients_loop :: "regex list \<Rightarrow> string \<Rightarrow> json attempt" where
  "ingredients_loop [] text_v =
     Returned (JObj [(''list'', JArr []), (''raw'', JNull), (''found'', JBool False)])"
| "ingredients_loop (pattern # patterns) text_v =
     (case re_search pattern True text_v of
        None \<Rightarrow> ingredients_loop patterns text_v
      | Some m \<Rightarrow>
          (case group_1 m of
             None \<Rightarrow> Raised
           | Some g \<Rightarrow>
               (let ingredients_text = py_strip g;
                    ingredient_list = split_separators ingredients_text;
                    ingredient_list = map py_strip (filter (\<lambda>ing. py_strip ing \<noteq> []) ingredient_list)
                in Returned (JObj [(''list'', JArr (map JStr ingredient_list)),
                                   (''raw'', JStr ingredients_text),
                                   (''found'', JBool True)]))))"

definition extract_ingredients :: "string \<Rightarrow> json attempt" where
  "extract_ingredients text_v = ingredients_loop ingredient_patterns text_v"

text \<open>\<^verbatim>\<open>(\d+\.?\d*)\<close>\<close>

definition decimal_group :: regex where
  "decimal_group = Group (seqs [Plus re_digit, Opt (Lit ''.''), Star re_digit])"

text \<open>\<^verbatim>\<open>name\s*:?\s*(\d+\.?\d*)\s*unit\<close>, where \<open>name\<close> and \<open>unit\<close> are patterns.\<close>

definition with_unit :: "regex \<Rightarrow> regex \<Rightarrow> regex" where
  "with_unit name unit_v =
     seqs [name, Star re_space, Opt (Lit '':''), Star re_space, decimal_group, Star re_space, unit_v]"

text \<open>\<^verbatim>\<open>name\s*(\d+\.?\d*)\<close>\<close>

definition bare_number :: "regex \<Rightarrow> regex" where
  "bare_number name = seqs [name, Star re_space, decimal_group]"

text \<open>
  The table \<^verbatim>\<open>nutrients\<close> of \<^verbatim>\<open>_extract_nutrition_facts\<close>, in the order of the
  dictionary literal:
  \<^verbatim>\<open>protein\s*:?\s*(\d+\.?\d*)\s*g\<close>, \<^verbatim>\<open>proteins?\s*(\d+\.?\d*)\<close>;
  \<^verbatim>\<open>(?:total\s+)?fat\s*:?\s*(\d+\.?\d*)\s*g\<close>, \<^verbatim>\<open>fats?\s*(\d+\.?\d*)\<close>;
  \<^verbatim>\<open>(?:total\s+)?carbohydrate\s*:?\s*(\d+\.?\d*)\s*g\<close>, \<^verbatim>\<open>carbs?\s*(\d+\.?\d*)\<close>;
  \<^verbatim>\<open>sugars?\s*:?\s*(\d+\.?\d*)\s*g\<close>, \<^verbatim>\<open>sugar\s*(\d+\.?\d*)\<close>;
  \<^verbatim>\<open>(?:dietary\s+)?fiber\s*:?\s*(\d+\.?\d*)\s*g\<close>, \<^verbatim>\<open>fibre\s*(\d+\.?\d*)\<close>;
  \<^verbatim>\<open>sodium\s*:?\s*(\d+\.?\d*)\s*(?:mg|g)\<close>, \<^verbatim>\<open>salt\s*(\d+\.?\d*)\<close>.
\<close>

definition nutrients :: "(string \<times> regex list) list" where
  "nutrients =
     [(''protein'',
         [with_unit (Lit ''protein'') (Lit ''g''),
          bare_number (Seq (Lit ''protein'') (Opt (Lit ''s'')))]),
      (''fat'',
         [with_unit (Seq (Opt (Seq (Lit ''total'') (Plus re_space))) (Lit ''fat'')) (Lit ''g''),
          bare_number (Seq (Lit ''fat'') (Opt (Lit ''s'')))]),
      (''carbohydrates'',
         [with_unit (Seq (Opt (Seq (Lit ''total'') (Plus re_space))) (Lit ''carbohydrate''))
            (Lit ''g''),
          bare_number (Seq (Lit ''carb'') (Opt (Lit ''s'')))]),
      (''sugar'',
         [with_unit (Seq (Lit ''sugar'') (Opt (Lit ''s''))) (Lit ''g''),
          bare_number (Lit ''sugar'')]),
      (''fiber'',
         [with_unit (Seq (Opt (Seq (Lit ''dietary'') (Plus re_space))) (Lit ''fiber'')) (Lit ''g''),
          bare_number (Lit ''fibre'')]),
      (''sodium'',
         [with_unit (Lit ''sodium'') (Alt (Lit ''mg'') (Lit ''g'')),
          bare_number (Lit ''salt'')])]"

text \<open>
  The inner loop over the patterns of one nutrient: the value of the first pattern that
  matches and whose group converts, \<open>None\<close> when the loop ends without a \<^verbatim>\<open>break\<close>.
  \<^verbatim>\<open>float(None)\<close> raises \<^verbatim>\<open>TypeError\<close>, which is not caught.
\<close>

fun nutrient_value :: "regex list \<Rightarrow> string \<Rightarrow> rat option attempt" where
  "nutrient_value [] text_lower = Returned None"
| "nutrient_value (pattern # patterns) text_lower =
     (case re_search pattern True text_lower of
        None \<Rightarrow> nutrient_value patterns text_lower
      | Some m \<Rightarrow>
          (case group_1 m of
             None \<Rightarrow> Raised
           | Some g \<Rightarrow>
               (case py_float g of
                  None \<Rightarrow> nutrient_value patterns text_lower
                | Some v \<Rightarrow> Returned (Some v))))"

definition nutrient_unit :: "string \<Rightarrow> string" where
  "nutrient_unit nutrient = (if nutrient \<noteq> ''sodium'' then ''g'' else ''mg'')"

fun nutrition_loop ::
  "(string \<times> regex list) list \<Rightarrow> string \<Rightarrow> (string \<times> json) list \<Rightarrow> json attempt" where
  "nutrition_loop [] text_lower nutrition = Returned (JObj nutrition)"
| "nutrition_loop ((nutrient, patterns) # rest) text_lower nutrition =
     (case nutrient_value patterns text_lower of
        Raised \<Rightarrow> Raised
      | Returned None \<Rightarrow> nutrition_loop rest text_lower nutrition
      | Returned (Some v) \<Rightarrow>
          nutrition_loop rest text_lower
            (dict_set nutrition nutrient
               (JObj [(''value'', JFloat v), (''unit'', JStr (nutrient_unit nutrient))])))"

definition extract_nutrition_facts :: "string \<Rightarrow> json attempt" where
  "extract_nutrition_facts text_v = nutrition_loop nutrients (py_lower text_v) []"

definition common_allergens :: "string list" where
  "common_allergens =
     [''milk'', ''eggs'', ''fish'', ''shellfish'', ''tree nuts'', ''peanuts'',
      ''wheat'', ''soybeans'', ''soy'', ''gluten'', ''sesame'', ''mustard'']"

text \<open>\<^verbatim>\<open>(?:contains?|allergens?|may contain)\s*:?\s*([^\n]+)\<close>\<close>

definition allergen_section_pattern :: regex where
  "allergen_section_pattern =
     seqs [Alt (Seq (Lit ''contain'') (Opt (Lit ''s'')))
             (Alt (Seq (Lit ''allergen'') (Opt (Lit ''s''))) (Lit ''may contain'')),
           Star re_space, Opt (Lit '':''), Star re_space, Group (Plus not_newline)]"

text \<open>\<^verbatim>\<open>sub in s\<close> for strings.\<close>

fun py_contains :: "string \<Rightarrow> string \<Rightarrow> bool" where
  "py_contains sub [] = (sub = [])"
| "py_contains sub (c # cs) = (take (length sub) (c # cs) = sub \<or> py_contains sub cs)"

text \<open>
  \<^verbatim>\<open>list(set(found_allergens))\<close> holds the distinct elements in an order that Python
  does not fix; the model keeps the order of the vocabulary.
\<close>

definition extract_allergens :: "string \<Rightarrow> json attempt" where
  "extract_allergens text_v =
     (let text_lower = py_lower text_v
      in bind_attempt
           (case re_search allergen_section_pattern True text_lower of
              Some m \<Rightarrow>
                (case group_1 m of
                   None \<Rightarrow> Raised
                 | Some allergen_text \<Rightarrow>
                     Returned (filter (\<lambda>allergen. py_contains allergen allergen_text)
                                 common_allergens))
            | None \<Rightarrow>
                Returned (filter (\<lambda>allergen.
                                    re_search (seqs [WordBoundary, Lit allergen, WordBoundary])
                                      False text_lower \<noteq> None)
                            common_allergens))
           (\<lambda>found_allergens.
              Returned (JObj [(''list'', JArr (map JStr (remdups found_allergens))),
                              (''found'', JBool (length found_allergens > 0))])))"

text \<open>
  \<^verbatim>\<open>re.sub(pattern, repl, s)\<close> for a pattern that matches no empty string (both patterns
  of \<^verbatim>\<open>_clean_text\<close> match one character at least): the matches are replaced from left
  to right; a position without a match of at least one character is copied.
\<close>

function sub_from :: "regex \<Rightarrow> string \<Rightarrow> char option \<Rightarrow> string \<Rightarrow> string" where
  "sub_from r repl prev s =
     (case s of
        [] \<Rightarrow> []
      | c # cs \<Rightarrow>
          (case re_match r False \<lparr> prev_char = prev, remaining = s, group1 = None \<rparr> of
             [] \<Rightarrow> c # sub_from r repl (Some c) cs
           | st # sts \<Rightarrow>
               if length (remaining st) < length s
               then repl @ sub_from r repl (prev_char st) (remaining st)
               else c # sub_from r repl (Some c) cs))"
  by pat_completeness auto
termination
  by (relation "measure (\<lambda>(r, repl, prev, s). length s)") auto

definition re_sub :: "regex \<Rightarrow> string \<Rightarrow> string \<Rightarrow> string" where
  "re_sub r repl s = sub_from r repl None s"

text \<open>\<^verbatim>\<open>\s+\<close> and \<^verbatim>\<open>[^\w\s\.\,\:\;\-\(\)\%\/]\<close>\<close>

definition clean_text :: "string \<Rightarrow> string" where
  "clean_text text_v =
     (let t1 = re_sub (Plus re_space) '' '' text_v;
          t2 = re_sub (Cls True [CWord, CSpace, CChar CHR ''.'', CChar CHR '','', CChar CHR '':'',
                                 CChar CHR '';'', CChar CHR ''-'', CChar CHR ''('', CChar CHR '')'',
                                 CChar CHR ''%'', CChar CHR ''/'']) '''' t1
      in py_strip t2)"

text \<open>The dictionary that \<^verbatim>\<open>extract_food_data\<close> returns, as its list of entries.\<close>

definition extract_food_data :: "string \<Rightarrow> (string \<times> json) list attempt" where
  "extract_food_data text_v =
     (let cleaned_text = clean_text text_v
      in bind_attempt (extract_calories cleaned_text) (\<lambda>calories.
         bind_attempt (extract_serving_size cleaned_text) (\<lambda>serving_size.
         bind_attempt (extract_ingredients cleaned_text) (\<lambda>ingredients.
         bind_attempt (extract_nutrition_facts cleaned_text) (\<lambda>nutrition_facts.
         bind_attempt (extract_allergens cleaned_text) (\<lambda>allergens.
           Returned [(''calories'', calories),
                     (''serving_size'', serving_size),
                     (''ingredients'', ingredients),
                     (''nutrition_facts'', nutrition_facts),
                     (''allergens'', allergens)]))))))"

section \<open>Canonical Schema Mapper and product lookup (barcode_service.py)\<close>

text \<open>Truth of a value in a condition, and \<^verbatim>\<open>a or b\<close>.\<close>

fun py_truthy :: "json \<Rightarrow> bool" where
  "py_truthy JNull = False"
| "py_truthy (JBool b) = b"
| "py_truthy (JInt n) = (n \<noteq> 0)"
| "py_truthy (JFloat x) = (x \<noteq> 0)"
| "py_truthy (JStr s) = (s \<noteq> [])"
| "py_truthy (JArr xs) = (xs \<noteq> [])"
| "py_truthy (JObj kvs) = (kvs \<noteq> [])"

definition py_or :: "json \<Rightarrow> json \<Rightarrow> json" where
  "py_or a b = (if py_truthy a then a else b)"

text \<open>
  \<^verbatim>\<open>d.get(key, default)\<close>: raises \<^verbatim>\<open>AttributeError\<close> when \<open>d\<close> is no dictionary.
  \<^verbatim>\<open>d.get(key)\<close> has the default \<open>None\<close>, which is \<^const>\<open>JNull\<close>.
\<close>

definition dict_get_default :: "json \<Rightarrow> string \<Rightarrow> json \<Rightarrow> json attempt" where
  "dict_get_default d key default_v =
     (case d of
        JObj kvs \<Rightarrow> Returned (case map_of kvs key of None \<Rightarrow> default_v | Some v \<Rightarrow> v)
      | _ \<Rightarrow> Raised)"

definition dict_get :: "json \<Rightarrow> string \<Rightarrow> json attempt" where
  "dict_get d key = dict_get_default d key JNull"

text \<open>\<^verbatim>\<open>x == 1\<close>: true of the integer 1, the float 1.0 and \<^verbatim>\<open>True\<close>.\<close>

fun py_equals_one :: "json \<Rightarrow> bool" where
  "py_equals_one (JInt n) = (n = 1)"
| "py_equals_one (JFloat x) = (x = 1)"
| "py_equals_one (JBool b) = b"
| "py_equals_one _ = False"

text \<open>
  \<^verbatim>\<open>[ing.strip() for ing in ingredients_text.replace(';', ',').split(',')]\<close>, run only
  when \<open>ingredients_text\<close> is true; a true value that is no string has no
  \<^verbatim>\<open>replace\<close>.
\<close>

definition split_ingredients_text :: "string \<Rightarrow> string list" where
  "split_ingredients_text s = map py_strip (py_split CHR '','' (py_replace '';'' '','' s))"

definition ingredients_list_of :: "json \<Rightarrow> string list attempt" where
  "ingredients_list_of ingredients_text =
     (if py_truthy ingredients_text
      then (case ingredients_text of
              JStr s \<Rightarrow> Returned (split_ingredients_text s)
            | _ \<Rightarrow> Raised)
      else Returned [])"

text \<open>
  \<^verbatim>\<open>[tag.replace('en:', '').replace('-', ' ') for tag in allergens_tags]\<close>. Iterating over
  a list gives its elements, over a dictionary its keys, over a string its characters;
  any other value is not iterable. An element that is no string has no \<^verbatim>\<open>replace\<close>.
\<close>

definition normalize_tag :: "string \<Rightarrow> string" where
  "normalize_tag tag = py_replace ''-'' '' '' (py_replace ''en:'' '''' tag)"

fun normalize_tags :: "json list \<Rightarrow> string list attempt" where
  "normalize_tags [] = Returned []"
| "normalize_tags (JStr tag # tags) =
     (case normalize_tags tags of
        Raised \<Rightarrow> Raised
      | Returned ts \<Rightarrow> Returned (normalize_tag tag # ts))"
| "normalize_tags (other # tags) = Raised"

definition allergens_list_of :: "json \<Rightarrow> string list attempt" where
  "allergens_list_of allergens_tags =
     (case allergens_tags of
        JArr tags \<Rightarrow> normalize_tags tags
      | JObj kvs \<Rightarrow> Returned (map (\<lambda>(k, v). normalize_tag k) kvs)
      | JStr s \<Rightarrow> Returned (map (\<lambda>c. normalize_tag [c]) s)
      | _ \<Rightarrow> Raised)"

definition nutrient_map :: "(string \<times> string list) list" where
  "nutrient_map =
     [(''protein'', [''proteins_100g'', ''proteins'']),
      (''fat'', [''fat_100g'', ''fat'']),
      (''saturated_fat'', [''saturated-fat_100g'', ''saturated-fat'']),
      (''carbohydrates'', [''carbohydrates_100g'', ''carbohydrates'']),
      (''sugars'', [''sugars_100g'', ''sugars'']),
      (''fiber'', [''fiber_100g'', ''fiber'']),
      (''sodium'', [''sodium_100g'', ''sodium'']),
      (''salt'', [''salt_100g'', ''salt''])]"

text \<open>The inner loop: the first key with a value that is not \<open>None\<close>.\<close>

fun first_present :: "json \<Rightarrow> string list \<Rightarrow> json option attempt" where
  "first_present nutriments [] = Returned None"
| "first_present nutriments (key # keys) =
     (case dict_get nutriments key of
        Raised \<Rightarrow> Raised
      | Returned v \<Rightarrow> if v \<noteq> JNull then Returned (Some v) else first_present nutriments keys)"

fun product_nutrition_loop ::
  "(string \<times> string list) list \<Rightarrow> json \<Rightarrow> (string \<times> json) list \<Rightarrow> json attempt" where
  "product_nutrition_loop [] nutriments nutrition = Returned (JObj nutrition)"
| "product_nutrition_loop ((nutrient, keys) # rest) nutriments nutrition =
     (case first_present nutriments keys of
        Raised \<Rightarrow> Raised
      | Returned None \<Rightarrow> product_nutrition_loop rest nutriments nutrition
      | Returned (Some v) \<Rightarrow>
          product_nutrition_loop rest nutriments
            (dict_set nutrition nutrient
               (JObj [(''value'', v),
                      (''unit'', JStr (if nutrient \<in> set [''sodium'', ''salt''] then ''mg'' else ''g''))])))"

definition product_nutrition_facts :: "json \<Rightarrow> json attempt" where
  "product_nutrition_facts nutriments = product_nutrition_loop nutrient_map nutriments []"

text \<open>
  \<^verbatim>\<open>_extract_product_data\<close>. The statements run in the order of the source; the first one
  that raises ends the function.
\<close>

definition extract_product_data :: "json \<Rightarrow> json attempt" where
  "extract_product_data product =
     bind_attempt (dict_get_default product ''nutriments'' (JObj [])) (\<lambda>nutriments.
     bind_attempt (dict_get nutriments ''energy-kcal_100g'') (\<lambda>kcal_100g.
     bind_attempt (dict_get nutriments ''energy-kcal'') (\<lambda>kcal.
     bind_attempt (dict_get nutriments ''energy-kcal_serving'') (\<lambda>calories_serving.
     bind_attempt (dict_get product ''serving_size'') (\<lambda>serving_size_1.
     bind_attempt (dict_get product ''serving_quantity'') (\<lambda>serving_quantity.
     bind_attempt (dict_get product ''ingredients_text'') (\<lambda>ingredients_text_1.
     bind_attempt (dict_get product ''ingredients_text_tr'') (\<lambda>ingredients_text_tr.
     let calories_value = py_or kcal_100g kcal;
         serving_size = py_or serving_size_1 serving_quantity;
         ingredients_text = py_or ingredients_text_1 ingredients_text_tr
     in
     bind_attempt (ingredients_list_of ingredients_text) (\<lambda>ingredients_list.
     bind_attempt (dict_get_default product ''allergens_tags'' (JArr [])) (\<lambda>allergens_tags.
     bind_attempt (allergens_list_of allergens_tags) (\<lambda>allergens_list.
     bind_attempt (dict_get product ''code'') (\<lambda>code.
     bind_attempt (dict_get product ''product_name'') (\<lambda>product_name.
     bind_attempt (dict_get product ''product_name_tr'') (\<lambda>product_name_tr.
     bind_attempt (dict_get product ''brands'') (\<lambda>brands.
     bind_attempt (dict_get product ''categories'') (\<lambda>categories.
     bind_attempt (dict_get product ''image_url'') (\<lambda>image_url.
     bind_attempt (product_nutrition_facts nutriments) (\<lambda>nutrition_facts.
     bind_attempt (dict_get_default product ''labels_tags'' (JArr [])) (\<lambda>labels.
     bind_attempt (dict_get product ''nova_group'') (\<lambda>nova_group.
     bind_attempt (dict_get product ''nutriscore_grade'') (\<lambda>nutriscore_grade.
       Returned (JObj
         [(''source'', JStr ''openfoodfacts''),
          (''barcode'', code),
          (''product_name'', py_or product_name product_name_tr),
          (''brands'', brands),
          (''categories'', categories),
          (''image_url'', image_url),
          (''calories'', JObj [(''value'', calories_value),
                               (''value_serving'', calories_serving),
                               (''unit'', JStr ''kcal''),
                               (''found'', JBool (calories_value \<noteq> JNull))]),
          (''serving_size'', JObj [(''value'', serving_size),
                                   (''found'', JBool (serving_size \<noteq> JNull))]),
          (''ingredients'', JObj [(''list'', JArr (map JStr ingredients_list)),
                                  (''raw'', ingredients_text),
                                  (''found'', JBool (py_truthy ingredients_text))]),
          (''nutrition_facts'', nutrition_facts),
          (''allergens'', JObj [(''list'', JArr (map JStr allergens_list)),
                                (''found'', JBool (allergens_list \<noteq> []))]),
          (''labels'', labels),
          (''nova_group'', nova_group),
          (''nutriscore_grade'', nutriscore_grade)]))))))))))))))))))))))"

text \<open>
  The outcome of \<^verbatim>\<open>requests.get(url, timeout=5)\<close>: a timeout, another exception of the
  request, or a response with its status code and what \<^verbatim>\<open>response.json()\<close> gives
  (it raises on a body that is no JSON).
\<close>

datatype http_outcome = HttpTimeout | HttpError | HttpResponse int "json attempt"

definition api_base_url :: string where
  "api_base_url = ''https://tr.openfoodfacts.org/api/v2/product''"

text \<open>
  \<^verbatim>\<open>get_product_info\<close>: every exception inside the \<^verbatim>\<open>try\<close> gives \<open>None\<close>. The line that
  logs the product name raises only when \<open>product\<close> is no dictionary, in which case the
  first statement of \<^const>\<open>extract_product_data\<close> raises as well.
\<close>

definition get_product_info :: "(string \<Rightarrow> http_outcome) \<Rightarrow> string \<Rightarrow> json option" where
  "get_product_info http_get barcode =
     (case http_get (api_base_url @ ''/'' @ barcode) of
        HttpTimeout \<Rightarrow> None
      | HttpError \<Rightarrow> None
      | HttpResponse status_code body \<Rightarrow>
          if status_code = 200
          then (case body of
                  Raised \<Rightarrow> None
                | Returned data \<Rightarrow>
                    (case dict_get data ''status'' of
                       Raised \<Rightarrow> None
                     | Returned status \<Rightarrow>
                         (case dict_get data ''product'' of
                            Raised \<Rightarrow> None
                          | Returned product \<Rightarrow>
                              if py_equals_one status \<and> py_truthy product
                              then (case extract_product_data product of
                                      Raised \<Rightarrow> None
                                    | Returned structured_data \<Rightarrow> Some structured_data)
                              else None)))
          else None)"

text \<open>
  \<^verbatim>\<open>detect_barcode\<close>. The scanner (the grey conversion and \<^verbatim>\<open>pyzbar.decode\<close>) raises or
  returns the list of the codes it sees, each with what decoding its bytes as UTF-8
  gives. Only the first code is read; every exception gives \<open>None\<close>.
\<close>

definition detect_barcode :: "('img \<Rightarrow> string attempt list attempt) \<Rightarrow> 'img \<Rightarrow> string option" where
  "detect_barcode scan img =
     (case scan img of
        Raised \<Rightarrow> None
      | Returned [] \<Rightarrow> None
      | Returned (Raised # others) \<Rightarrow> None
      | Returned (Returned barcode_data # others) \<Rightarrow> Some barcode_data)"

text \<open>\<^verbatim>\<open>scan_and_fetch\<close>: \<^verbatim>\<open>if barcode:\<close> is false for \<open>None\<close> and for the empty string.\<close>

definition scan_and_fetch ::
  "('img \<Rightarrow> string attempt list attempt) \<Rightarrow> (string \<Rightarrow> http_outcome) \<Rightarrow> 'img \<Rightarrow> json option" where
  "scan_and_fetch scan http_get img =
     (case detect_barcode scan img of
        None \<Rightarrow> None
      | Some barcode \<Rightarrow> if barcode \<noteq> [] then get_product_info http_get barcode else None)"

section \<open>Orchestrator (main.py, upload_image)\<close>

text \<open>
  The collaborators of a request: the image decoder (\<^verbatim>\<open>cv2.imdecode\<close> returns \<open>None\<close>
  for bytes that are no image), the barcode scanner, the product database, the image
  preprocessor and the OCR service. Each of them raises or returns.
\<close>

record ('bytes, 'img) services =
  imdecode :: "'bytes \<Rightarrow> 'img option attempt"
  scan :: "'img \<Rightarrow> string attempt list attempt"
  http_get :: "string \<Rightarrow> http_outcome"
  preprocess :: "'img \<Rightarrow> 'img attempt"
  ocr_extract_text :: "'img \<Rightarrow> string attempt"

record 'bytes upload_file =
  content_type :: "string option"
  contents :: 'bytes

text \<open>
  What the endpoint gives: a JSON response, or an \<^verbatim>\<open>HTTPException\<close> with its status
  code. The detail of the status 500 quotes the text of the exception and is left out.
\<close>

datatype response = JSONResponse json | HTTPException int "string option"

text \<open>Step 2 of \<^verbatim>\<open>upload_image\<close>: preprocess, recognise, extract, tag \<^verbatim>\<open>source\<close>.\<close>

definition ocr_fallback :: "('bytes, 'img) services \<Rightarrow> 'img \<Rightarrow> response" where
  "ocr_fallback env img =
     (case preprocess env img of
        Raised \<Rightarrow> HTTPException 500 None
      | Returned processed_image \<Rightarrow>
          (case ocr_extract_text env processed_image of
             Raised \<Rightarrow> HTTPException 500 None
           | Returned raw_text \<Rightarrow>
               if py_strip raw_text = []
               then JSONResponse (JObj
                      [(''success'', JBool False),
                       (''message'', JStr ''No barcode found and no text detected in image''),
                       (''method'', JStr ''ocr''),
                       (''data'', JNull)])
               else (case extract_food_data raw_text of
                       Raised \<Rightarrow> HTTPException 500 None
                     | Returned structured_data \<Rightarrow>
                         JSONResponse (JObj
                           [(''success'', JBool True),
                            (''message'', JStr ''Image processed successfully via OCR''),
                            (''method'', JStr ''ocr''),
                            (''data'', JObj (dict_set structured_data ''source'' (JStr ''ocr''))),
                            (''raw_text'', JStr (take 500 raw_text))]))))"

definition upload_image :: "('bytes, 'img) services \<Rightarrow> 'bytes upload_file \<Rightarrow> response" where
  "upload_image env file =
     (case content_type file of
        None \<Rightarrow> HTTPException 500 None
      | Some ct \<Rightarrow>
          if take 6 ct \<noteq> ''image/''
          then HTTPException 400 (Some ''File must be an image'')
          else (case imdecode env (contents file) of
                  Raised \<Rightarrow> HTTPException 500 None
                | Returned None \<Rightarrow> HTTPException 400 (Some ''Invalid image file'')
                | Returned (Some img) \<Rightarrow>
                    (case scan_and_fetch (scan env) (http_get env) img of
                       Some barcode_data \<Rightarrow>
                         if py_truthy barcode_data
                         then JSONResponse (JObj
                                [(''success'', JBool True),
                                 (''message'', JStr ''Product found via barcode from OpenFoodFacts''),
                                 (''method'', JStr ''barcode''),
                                 (''data'', barcode_data)])
                         else ocr_fallback env img
                     | None \<Rightarrow> ocr_fallback env img)))"

section \<open>Specification predicates and sample inputs\<close>

text \<open>
  \<open>first_max_at key xs i\<close>: position \<open>i\<close> holds a largest key of \<open>xs\<close>, and every
  earlier position holds a strictly smaller one.
\<close>

definition first_max_at :: "('a \<Rightarrow> 'k::linorder) \<Rightarrow> 'a list \<Rightarrow> nat \<Rightarrow> bool" where
  "first_max_at key xs i =
     (i < length xs \<and> (\<forall>j<length xs. key (xs ! j) \<le> key (xs ! i))
      \<and> (\<forall>j<i. key (xs ! j) < key (xs ! i)))"

text \<open>An engine that recognises nothing: empty text, one token without confidence.\<close>

definition blank_page_engine :: "unit tesseract" where
  "blank_page_engine =
     \<lparr> image_to_string = (\<lambda>img psm. Returned ''''),
       image_to_data = (\<lambda>img psm. Returned \<lparr> data_conf = [ConfInt (- 1)],
                                                 data_text = [TextStr ''''] \<rparr>) \<rparr>"

text \<open>An engine that reads two words, with two tokens of non-positive confidence.\<close>

definition two_word_engine :: "unit tesseract" where
  "two_word_engine =
     \<lparr> image_to_string = (\<lambda>img psm. Returned ''Calories 250''),
       image_to_data = (\<lambda>img psm. Returned
         \<lparr> data_conf = map ConfInt [90, - 1, 60, 0],
           data_text = map TextStr [''Calories'', '''', ''250'', '' ''] \<rparr>) \<rparr>"

definition three_results :: "recognition_result list" where
  "three_results =
     [\<lparr> ocr_text = ''first'', confidence = 50, word_count = 1, ocr_method = ''default_psm6'' \<rparr>,
      \<lparr> ocr_text = ''second'', confidence = 90, word_count = 1, ocr_method = ''default_psm3'' \<rparr>,
      \<lparr> ocr_text = ''third'', confidence = 90, word_count = 1, ocr_method = ''default_psm4'' \<rparr>]"


text \<open>
  Reading a record: \<open>json_field j k\<close> is the entry \<open>k\<close> of the dictionary \<open>j\<close>
  (\<^const>\<open>JNull\<close> when there is none), \<open>list_field j\<close> the elements of its entry
  \<^verbatim>\<open>list\<close>. A separator of an ingredients text is a comma or a semicolon.
\<close>

definition json_field :: "json \<Rightarrow> string \<Rightarrow> json" where
  "json_field j k =
     (case j of
        JObj kvs \<Rightarrow> (case map_of kvs k of Some v \<Rightarrow> v | None \<Rightarrow> JNull)
      | _ \<Rightarrow> JNull)"

definition list_field :: "json \<Rightarrow> json list" where
  "list_field d = (case json_field d ''list'' of JArr xs \<Rightarrow> xs | _ \<Rightarrow> [])"

definition is_separator :: "char \<Rightarrow> bool" where
  "is_separator c = (c = CHR '','' \<or> c = CHR '';'')"

text \<open>A product of the database and the record that the mapper builds from it.\<close>

definition sample_product_entries :: "(string \<times> json) list" where
  "sample_product_entries =
     [(''code'', JStr ''8690504012345''),
      (''product_name'', JStr ''Biscuit''),
      (''nutriments'', JObj [(''energy-kcal_100g'', JInt 480), (''sodium_100g'', JFloat (3 / 10))]),
      (''ingredients_text'', JStr ''sugar,,salt,''),
      (''allergens_tags'', JArr [JStr ''en:gluten'', JStr ''en:tree-nuts''])]"

definition sample_product_record :: json where
  "sample_product_record = JObj
     [(''source'', JStr ''openfoodfacts''),
      (''barcode'', JStr ''8690504012345''),
      (''product_name'', JStr ''Biscuit''),
      (''brands'', JNull),
      (''categories'', JNull),
      (''image_url'', JNull),
      (''calories'', JObj [(''value'', JInt 480), (''value_serving'', JNull),
                           (''unit'', JStr ''kcal''), (''found'', JBool True)]),
      (''serving_size'', JObj [(''value'', JNull), (''found'', JBool False)]),
      (''ingredients'', JObj [(''list'', JArr [JStr ''sugar'', JStr '''', JStr ''salt'', JStr '''']),
                              (''raw'', JStr ''sugar,,salt,''), (''found'', JBool True)]),
      (''nutrition_facts'',
         JObj [(''sodium'', JObj [(''value'', JFloat (3 / 10)), (''unit'', JStr ''mg'')])]),
      (''allergens'', JObj [(''list'', JArr [JStr ''gluten'', JStr ''tree nuts'']),
                            (''found'', JBool True)]),
      (''labels'', JArr []),
      (''nova_group'', JNull),
      (''nutriscore_grade'', JNull)]"

text \<open>
  \<open>entry_from_pattern t tbl nutrient entry\<close>: the entry holds the number that a pattern
  of the nutrient captured in \<open>t\<close>, as it is written, and the unit string of the
  nutrient.
\<close>

definition entry_from_pattern ::
  "string \<Rightarrow> (string \<times> regex list) list \<Rightarrow> string \<Rightarrow> json \<Rightarrow> bool" where
  "entry_from_pattern t tbl nutrient entry =
     (\<exists>patterns pattern m g v.
        (nutrient, patterns) \<in> set tbl \<and> pattern \<in> set patterns
        \<and> re_search pattern True t = Some m \<and> group_1 m = Some g \<and> py_float g = Some v
        \<and> entry = JObj [(''value'', JFloat v),
                        (''unit'', JStr (if nutrient = ''sodium'' then ''mg'' else ''g''))])"

text \<open>The top-level keys of the records of the two branches, in the order of the source.\<close>

definition barcode_record_keys :: "string list" where
  "barcode_record_keys =
     [''source'', ''barcode'', ''product_name'', ''brands'', ''categories'', ''image_url'',
      ''calories'', ''serving_size'', ''ingredients'', ''nutrition_facts'', ''allergens'',
      ''labels'', ''nova_group'', ''nutriscore_grade'']"

definition ocr_record_keys :: "string list" where
  "ocr_record_keys =
     [''calories'', ''serving_size'', ''ingredients'', ''nutrition_facts'', ''allergens'', ''source'']"

text \<open>
  A request and its collaborators: an image with one barcode that the database knows, the
  same with another outcome of the lookup, and the same without a barcode.
\<close>

definition sample_file :: "unit upload_file" where
  "sample_file = \<lparr> content_type = Some ''image/jpeg'', contents = () \<rparr>"

definition sample_ocr_text :: string where
  "sample_ocr_text = ''Calories 120''"

definition barcode_env :: "(unit, unit) services" where
  "barcode_env =
     \<lparr> imdecode = (\<lambda>b. Returned (Some ())),
       scan = (\<lambda>img. Returned [Returned ''8690504012345'']),
       http_get = (\<lambda>url. HttpResponse 200
                     (Returned (JObj [(''status'', JInt 1), (''product'', JObj sample_product_entries)]))),
       preprocess = (\<lambda>img. Returned ()),
       ocr_extract_text = (\<lambda>img. Returned sample_ocr_text) \<rparr>"

definition env_with_lookup :: "http_outcome \<Rightarrow> (unit, unit) services" where
  "env_with_lookup outcome = barcode_env \<lparr> http_get := (\<lambda>url. outcome) \<rparr>"

definition no_barcode_env :: "(unit, unit) services" where
  "no_barcode_env = barcode_env \<lparr> scan := (\<lambda>img. Returned []) \<rparr>"

text \<open>The responses to \<^const>\<open>sample_file\<close> with and without a barcode in the image.\<close>

definition barcode_response :: json where
  "barcode_response = JObj
     [(''success'', JBool True),
      (''message'', JStr ''Product found via barcode from OpenFoodFacts''),
      (''method'', JStr ''barcode''),
      (''data'', sample_product_record)]"

definition ocr_response :: json where
  "ocr_response = JObj
     [(''success'', JBool True),
      (''message'', JStr ''Image processed successfully via OCR''),
      (''method'', JStr ''ocr''),
      (''data'', JObj
         [(''calories'', JObj [(''value'', JInt 120), (''unit'', JStr ''kcal''),
                              (''found'', JBool True)]),
          (''serving_size'', JObj [(''value'', JNull), (''found'', JBool False)]),
          (''ingredients'', JObj [(''list'', JArr []), (''raw'', JNull), (''found'', JBool False)]),
          (''nutrition_facts'', JObj []),
          (''allergens'', JObj [(''list'', JArr []), (''found'', JBool False)]),
          (''source'', JStr ''ocr'')]),
      (''raw_text'', JStr sample_ocr_text)]"

text \<open>
  \<open>literal_at ops ic lit s\<close>: the literal \<open>lit\<close> matches at the start of \<open>s\<close>,
  character by character.
\<close>

fun literal_at :: "'c char_ops \<Rightarrow> bool \<Rightarrow> string \<Rightarrow> 'c list \<Rightarrow> bool" where
  "literal_at ops ic [] s = True"
| "literal_at ops ic (a # as) [] = False"
| "literal_at ops ic (a # as) (c # cs) = (literal_matches ops ic a c \<and> literal_at ops ic as cs)"

text \<open>
  \<open>ascii_faithful ops\<close>: on the characters with code points below 128 the operations
  are those of ASCII. With \<^verbatim>\<open>re.IGNORECASE\<close> an ASCII pattern character matches an ASCII
  text character exactly when their lower case forms are equal, \<^verbatim>\<open>\s\<close> and \<^verbatim>\<open>\d\<close> hold
  of the ASCII white space and the ASCII digits, and \<^verbatim>\<open>int\<close> reads a run of at most
  4300 ASCII digits as the decimal number. These are facts of Python's tables; nothing is
  said of the other characters.
\<close>

definition ascii_faithful :: "'c char_ops \<Rightarrow> bool" where
  "ascii_faithful ops =
     ((\<forall>a c. (of_char a :: nat) < 128 \<and> (of_char c :: nat) < 128
          \<longrightarrow> literal_matches ops True a (from_char ops c) = lit_char_matches True a c)
      \<and> (\<forall>c. (of_char c :: nat) < 128
          \<longrightarrow> set_matches ops True False [CSpace] (from_char ops c) = py_isspace c)
      \<and> (\<forall>c. (of_char c :: nat) < 128
          \<longrightarrow> set_matches ops True False [CDigit] (from_char ops c) = re_isdigit c)
      \<and> (\<forall>s. s \<noteq> [] \<and> list_all re_isdigit s \<and> length s \<le> 4300
          \<longrightarrow> parse_int ops (map (from_char ops) s) = Some (int (digits_val s))))"

text \<open>
  An example of character operations on code points beyond 255, used to run the model on
  texts with such characters. Below 256 it is \<^const>\<open>latin1\<close>. Above, it knows the
  letters that \<^verbatim>\<open>re.IGNORECASE\<close> matches with an ASCII letter (304 and 305 with
  \<^verbatim>\<open>i\<close>, 383 with \<^verbatim>\<open>s\<close>, 8490 with \<^verbatim>\<open>k\<close>), their lower case forms, and the
  letter 351; every other character is no letter, no digit and no white space.
\<close>

definition code_points :: "string \<Rightarrow> nat list" where
  "code_points s = map of_char s"

definition sample_partners :: "nat \<Rightarrow> string" where
  "sample_partners n =
     (if n = 304 \<or> n = 305 then ''iI''
      else if n = 383 then ''sS''
      else if n = 8490 then ''kK''
      else [])"

definition sample_letter :: "nat \<Rightarrow> bool" where
  "sample_letter n = (n \<in> {304, 305, 351, 383, 8490})"

definition sample_code_point_ops :: "nat char_ops" where
  "sample_code_point_ops =
     \<lparr> from_char = of_char,
       literal_matches = (\<lambda>ic a n.
          if n < 256 then lit_char_matches ic a (char_of n)
          else ic \<and> a \<in> set (sample_partners n)),
       set_matches = (\<lambda>ic negated items n.
          if n < 256 then cls_matches ic negated items (char_of n)
          else (let inside = list_ex (\<lambda>i. i = CWord \<and> sample_letter n
                                        \<or> ic \<and> list_ex (in_item i) (sample_partners n))
                               items
                in if negated then \<not> inside else inside)),
       word_char = (\<lambda>n. if n < 256 then re_isword (char_of n) else sample_letter n),
       lower_text = (\<lambda>s. concat (map (\<lambda>n. if n < 256 then [of_char (py_lower_char (char_of n))]
                                            else if n = 304 then [105, 775]
                                            else if n = 8490 then [107]
                                            else [n]) s)),
       parse_int = (\<lambda>s. if list_all (\<lambda>n. n < 256) s then py_int (map char_of s) else None) \<rparr>"

text \<open>The arithmetic mean, exactly.\<close>

definition exact_mean :: "int list \<Rightarrow> rat" where
  "exact_mean cs = (if cs = [] then 0 else of_int (sum_list cs) / of_int (int (length cs)))"

text \<open>An engine that reads three words with the confidences 10, 20 and 25.\<close>

definition three_token_engine :: "unit tesseract" where
  "three_token_engine =
     \<lparr> image_to_string = (\<lambda>img psm. Returned ''Total Fat 3g''),
       image_to_data = (\<lambda>img psm. Returned
         \<lparr> data_conf = map ConfInt [10, 20, 25],
           data_text = map TextStr [''Total'', ''Fat'', ''3g''] \<rparr>) \<rparr>"

section \<open>Properties of the Quality Assessor\<close>

lemma raw_quality_score_bounds: "0 \<le> raw_quality_score m \<and> raw_quality_score m \<le> 100"
  by (simp add: raw_quality_score_def Let_def)

lemma raw_quality_score_deductions:
  "raw_quality_score m =
     100 - (if mean_brightness m < 40 \<or> mean_brightness m > 215 then 30 else 0)
         - (if laplacian_var m < 100 then 40 else 0)
         - (if contrast m < 30 then 20 else 0)
         - (if width m < 800 then 10 else 0)"
  by (simp add: raw_quality_score_def Let_def)

text \<open>
  Claim C7. For every input raster the quality score lies in [0,100]; it is 100 minus 30
  when the brightness is outside [40,215], minus 40 when the blur metric is below 100,
  minus 20 when the contrast is below 30, minus 10 when the width is below 800, floored at
  0; and the suitable flag is true exactly when the issues list is empty.
\<close>

theorem check_image_quality_score_and_suitable:
  "0 \<le> quality_score (check_image_quality m)
   \<and> quality_score (check_image_quality m) \<le> 100
   \<and> quality_score (check_image_quality m) =
       max 0 (100 - (if mean_brightness m < 40 \<or> mean_brightness m > 215 then 30 else 0)
                  - (if laplacian_var m < 100 then 40 else 0)
                  - (if contrast m < 30 then 20 else 0)
                  - (if width m < 800 then 10 else 0))
   \<and> suitable (check_image_quality m) = (issues (check_image_quality m) = [])"
proof -
  have s: "quality_score (check_image_quality m) = max 0 (raw_quality_score m)"
    by (simp add: check_image_quality_def Let_def)
  have b: "0 \<le> raw_quality_score m \<and> raw_quality_score m \<le> 100"
    by (rule raw_quality_score_bounds)
  have f: "suitable (check_image_quality m) = (issues (check_image_quality m) = [])"
    by (simp add: check_image_quality_def Let_def)
  from s b f show ?thesis
    by (simp only: raw_quality_score_deductions [symmetric]) simp
qed

section \<open>Properties of the Recognition Engine and the Result Selector\<close>

declare str_nat.simps [simp del]

lemma positive_confidences_ints:
  "positive_confidences (map ConfInt cs) = Returned (filter (\<lambda>c. 0 < c) cs)"
  by (induction cs) auto

lemma nonblank_words_strs:
  "nonblank_words (map TextStr ws) = Returned (filter (\<lambda>w. py_strip w \<noteq> []) ws)"
  by (induction ws) auto

lemma positive_confidences_raised:
  "(ConfBad \<in> set cs) = (positive_confidences cs = Raised)"
  by (induction cs rule: positive_confidences.induct) (auto split: attempt.splits)

lemma nonblank_words_raised:
  "(TextOther \<in> set ws) = (nonblank_words ws = Raised)"
  by (induction ws rule: nonblank_words.induct) (auto split: attempt.splits)

lemma ocr_single_pass_None:
  "ocr_single_pass eng img psm name = None \<longleftrightarrow>
     (image_to_string eng img psm = Raised
      \<or> (case image_to_data eng img psm of
            Raised \<Rightarrow> True
          | Returned d \<Rightarrow> ConfBad \<in> set (data_conf d) \<or> TextOther \<in> set (data_text d)))"
  by (auto simp: ocr_single_pass_def positive_confidences_raised nonblank_words_raised
           split: attempt.splits)

lemma ocr_single_pass_text:
  "ocr_single_pass eng img psm name = Some r \<Longrightarrow>
     image_to_string eng img psm = Returned (ocr_text r)"
  by (auto simp: ocr_single_pass_def split: attempt.splits)

text \<open>
  Claim C3, as the spec states it, fails: a pass whose recognised text is empty still
  contributes its result. With an engine that returns the empty text for every mode, all
  five passes over one image are collected.
\<close>

theorem empty_text_pass_is_collected:
  "map ocr_text (collect_results blank_page_engine () None) = ['''', '''', '''', '''', '''']"
  by code_simp

text \<open>
  Claim C3, amended. A pass contributes no result exactly when it raises (one of the two
  engine calls raises, a confidence entry does not convert to an integer, or a text entry
  is no string). A pass that does not raise contributes its result, whose text is the text
  the engine returned, empty or not.
\<close>

theorem pass_contributes_unless_it_raises:
  "(ocr_single_pass eng img psm name = None \<longleftrightarrow>
      (image_to_string eng img psm = Raised
       \<or> (case image_to_data eng img psm of
             Raised \<Rightarrow> True
           | Returned d \<Rightarrow> ConfBad \<in> set (data_conf d) \<or> TextOther \<in> set (data_text d))))
   \<and> (ocr_single_pass eng img psm name = None \<longrightarrow>
        append_if_truthy results (ocr_single_pass eng img psm name) = results)
   \<and> (\<forall>r. ocr_single_pass eng img psm name = Some r \<longrightarrow>
        append_if_truthy results (ocr_single_pass eng img psm name) = results @ [r]
        \<and> image_to_string eng img psm = Returned (ocr_text r))"
proof (intro conjI allI impI)
  show "ocr_single_pass eng img psm name = None \<longleftrightarrow>
      (image_to_string eng img psm = Raised
       \<or> (case image_to_data eng img psm of
             Raised \<Rightarrow> True
           | Returned d \<Rightarrow> ConfBad \<in> set (data_conf d) \<or> TextOther \<in> set (data_text d)))"
    by (rule ocr_single_pass_None)
next
  assume "ocr_single_pass eng img psm name = None"
  then show "append_if_truthy results (ocr_single_pass eng img psm name) = results"
    by (simp add: append_if_truthy_def)
next
  fix r assume "ocr_single_pass eng img psm name = Some r"
  then show "append_if_truthy results (ocr_single_pass eng img psm name) = results @ [r]"
    by (simp add: append_if_truthy_def)
next
  fix r assume "ocr_single_pass eng img psm name = Some r"
  then show "image_to_string eng img psm = Returned (ocr_text r)"
    by (rule ocr_single_pass_text)
qed

theorem pass_contributes_unless_it_raises_witness:
  "ocr_single_pass blank_page_engine () 6 ''default'' =
     Some \<lparr> ocr_text = '''', confidence = 0, word_count = 0, ocr_method = ''default_psm6'' \<rparr>
   \<and> append_if_truthy [] (ocr_single_pass blank_page_engine () 6 ''default'') =
     [\<lparr> ocr_text = '''', confidence = 0, word_count = 0, ocr_method = ''default_psm6'' \<rparr>]
   \<and> image_to_string blank_page_engine () 6 = Returned ''''"
proof -
  have p: "ocr_single_pass blank_page_engine () 6 ''default'' =
     Some \<lparr> ocr_text = '''', confidence = 0, word_count = 0, ocr_method = ''default_psm6'' \<rparr>"
    by code_simp
  from p pass_contributes_unless_it_raises [of blank_page_engine "()" 6 "''default''" "[]"]
  show ?thesis by simp
qed

text \<open>The running maximum of \<^const>\<open>py_max_by\<close> is the first largest element seen so far.\<close>

lemma first_max_at_snoc_keep:
  assumes "first_max_at key pre i" and "\<not> key (pre ! i) < key x"
  shows "first_max_at key (pre @ [x]) i"
  using assms unfolding first_max_at_def
  by (auto simp: nth_append less_Suc_eq not_less)

lemma first_max_at_snoc_new:
  assumes "first_max_at key pre i" and "key (pre ! i) < key x"
  shows "first_max_at key (pre @ [x]) (length pre)"
  using assms unfolding first_max_at_def
  by (auto simp: nth_append less_Suc_eq intro: le_less_trans less_imp_le)

lemma py_max_by_first_max:
  assumes "first_max_at key pre i"
  shows "\<exists>k. first_max_at key (pre @ xs) k \<and> py_max_by key (pre ! i) xs = (pre @ xs) ! k"
  using assms
proof (induction xs arbitrary: pre i)
  case Nil
  then show ?case by auto
next
  case (Cons x xs)
  show ?case
  proof (cases "key (pre ! i) < key x")
    case True
    from first_max_at_snoc_new [OF Cons.prems True]
    have f: "first_max_at key (pre @ [x]) (length pre)" .
    from Cons.IH [OF f] True show ?thesis by simp
  next
    case False
    from first_max_at_snoc_keep [OF Cons.prems False]
    have f: "first_max_at key (pre @ [x]) i" .
    have "i < length pre" using Cons.prems by (simp add: first_max_at_def)
    with Cons.IH [OF f] False show ?thesis by (simp add: nth_append)
  qed
qed

lemma first_max_at_single: "first_max_at key [r] 0"
  by (simp add: first_max_at_def)

text \<open>
  Claim C4. For a non-empty list of results the selector returns the text of a result whose
  confidence is at least that of every result of the list, and every result generated
  before it has a strictly smaller confidence (so among equally maximal results it is the
  first); for the empty list it returns the empty string.
\<close>

theorem select_best_first_maximum:
  "select_best [] = '''' \<and>
   (results \<noteq> [] \<longrightarrow>
     (\<exists>i<length results.
        select_best results = ocr_text (results ! i)
        \<and> (\<forall>j<length results. confidence (results ! j) \<le> confidence (results ! i))
        \<and> (\<forall>j<i. confidence (results ! j) < confidence (results ! i))))"
proof (cases results)
  case Nil
  then show ?thesis by (simp add: select_best_def)
next
  case (Cons r rs)
  from py_max_by_first_max [OF first_max_at_single, of confidence r rs]
  obtain k where k: "first_max_at confidence (r # rs) k"
    and m: "py_max_by confidence r rs = (r # rs) ! k" by auto
  have "select_best results = ocr_text (results ! k)"
    using Cons m by (simp add: select_best_def)
  with k Cons show ?thesis
    unfolding first_max_at_def by (auto simp: select_best_def)
qed

theorem select_best_first_maximum_witness:
  "three_results \<noteq> [] \<and> select_best three_results = ''second''
   \<and> (\<exists>i<length three_results.
        select_best three_results = ocr_text (three_results ! i)
        \<and> (\<forall>j<length three_results.
              confidence (three_results ! j) \<le> confidence (three_results ! i))
        \<and> (\<forall>j<i. confidence (three_results ! j) < confidence (three_results ! i)))"
proof -
  have n: "three_results \<noteq> []" by (simp add: three_results_def)
  have s: "select_best three_results = ''second''"
    by (simp add: three_results_def select_best_def)
  from n s select_best_first_maximum [of three_results] show ?thesis by blast
qed

declare bit_length.simps [simp del]

lemma bit_length_bounds: "0 < n \<Longrightarrow> 2 ^ (bit_length n - 1) \<le> n \<and> n < 2 ^ bit_length n"
proof (induction n rule: bit_length.induct)
  case (1 n)
  show ?case
  proof (cases "n div 2 = 0")
    case True
    with "1.prems" have "n = 1" by (cases n) auto
    then show ?thesis by (simp add: bit_length.simps)
  next
    case False
    with "1.IH" "1.prems"
    have ih: "2 ^ (bit_length (n div 2) - 1) \<le> n div 2 \<and> n div 2 < 2 ^ bit_length (n div 2)"
      by simp
    have pos: "0 < bit_length (n div 2)" using False by (subst bit_length.simps) simp
    have b: "bit_length n = Suc (bit_length (n div 2))"
      using "1.prems" by (subst bit_length.simps) simp
    define k where "k = (2::nat) ^ (bit_length (n div 2) - 1)"
    from pos have p: "(2::nat) ^ bit_length (n div 2) = 2 * k"
      unfolding k_def by (cases "bit_length (n div 2)") auto
    from ih have "k \<le> n div 2" and "n div 2 < 2 * k"
      unfolding p k_def by simp_all
    then have "2 * k \<le> n \<and> n < 4 * k" by arith
    moreover have "(2::nat) ^ (bit_length n - 1) = 2 * k" using b p by simp
    moreover have "(2::nat) ^ bit_length n = 4 * k" using b p by simp
    ultimately show ?thesis by simp
  qed
qed


lemma floor_log2_le:
  assumes "0 < q"
  shows "power_int 2 (floor_log2 q) \<le> q"
proof -
  obtain a b where ab: "quotient_of q = (a, b)" by (cases "quotient_of q")
  then have b: "0 < b" and q: "q = of_int a / of_int b"
    using quotient_of_denom_pos quotient_of_div by blast+
  from assms b q have a: "0 < a" by (simp add: zero_less_divide_iff)
  let ?la = "bit_length (nat a)" and ?lb = "bit_length (nat b)"
  let ?d = "int ?la - int ?lb"
  show ?thesis
  proof (cases "power_int 2 ?d \<le> q")
    case True
    then show ?thesis using ab by (simp add: floor_log2_def)
  next
    case False
    then have e: "floor_log2 q = ?d - 1" using ab by (simp add: floor_log2_def)
    from bit_length_bounds [of "nat a"] a have la: "2 ^ (?la - 1) \<le> nat a" by simp
    from bit_length_bounds [of "nat b"] b have lb: "nat b < 2 ^ ?lb" by simp
    have la1: "0 < ?la" using a by (subst bit_length.simps) simp
    have A: "(2::rat) ^ (?la - 1) \<le> of_int a"
    proof -
      from la have "(of_nat (2 ^ (?la - 1)) :: rat) \<le> of_nat (nat a)"
        by (simp only: of_nat_le_iff)
      then show ?thesis using a by simp
    qed
    have B: "(of_int b :: rat) \<le> 2 ^ ?lb"
    proof -
      from lb have "(of_nat (nat b) :: rat) \<le> of_nat (2 ^ ?lb)"
        by (simp only: of_nat_le_iff)
      then show ?thesis using b by simp
    qed
    have "power_int (2::rat) (?d - 1) = power_int 2 (int (?la - 1) - int ?lb)"
      using la1 by (simp add: of_nat_diff algebra_simps)
    also have "\<dots> = 2 ^ (?la - 1) / 2 ^ ?lb"
      by (simp add: power_int_diff)
    also have "\<dots> \<le> of_int a / of_int b"
      using A B a b by (intro frac_le) simp_all
    finally show ?thesis using e q by simp
  qed
qed

lemma round_half_even_error: "\<bar>of_int (round_half_even x) - x\<bar> \<le> 1 / 2"
proof -
  have "of_int \<lfloor>x\<rfloor> \<le> x" "x < of_int \<lfloor>x\<rfloor> + 1" by linarith+
  then show ?thesis
    by (auto simp: round_half_even_def Let_def abs_le_iff)
qed

lemma round_half_even_nonneg: "0 \<le> x \<Longrightarrow> 0 \<le> round_half_even x"
  by (auto simp: round_half_even_def Let_def)

lemma round_half_even_le_int:
  assumes "x \<le> of_int N"
  shows "round_half_even x \<le> N"
proof -
  have f: "\<lfloor>x\<rfloor> \<le> N" using assms by (simp add: floor_le_iff)
  show ?thesis
  proof (cases "\<lfloor>x\<rfloor> = N")
    case True
    have "of_int \<lfloor>x\<rfloor> \<le> x" by simp
    with True assms have "x = of_int \<lfloor>x\<rfloor>" by simp
    then have "x - of_int \<lfloor>x\<rfloor> = 0" by simp
    then show ?thesis using True by (simp add: round_half_even_def Let_def)
  next
    case False
    with f have "\<lfloor>x\<rfloor> + 1 \<le> N" by simp
    then show ?thesis by (auto simp: round_half_even_def Let_def)
  qed
qed

lemma round_to_double_error:
  assumes "0 < q"
  shows "\<bar>round_to_double q - q\<bar> \<le> q / 2 ^ 53"
proof -
  define e where "e = floor_log2 \<bar>q\<bar>"
  define ulp :: rat where "ulp = power_int 2 (e - 52)"
  have u: "0 < ulp" by (simp add: ulp_def)
  have r: "round_to_double q = of_int (round_half_even (q / ulp)) * ulp"
    using assms by (simp add: round_to_double_def Let_def e_def ulp_def)
  have "\<bar>round_to_double q - q\<bar> = \<bar>of_int (round_half_even (q / ulp)) - q / ulp\<bar> * ulp"
  proof -
    have "round_to_double q - q = (of_int (round_half_even (q / ulp)) - q / ulp) * ulp"
      using u r by (simp add: algebra_simps)
    then show ?thesis using u by (simp add: abs_mult)
  qed
  also have "\<dots> \<le> (1 / 2) * ulp"
    using round_half_even_error [of "q / ulp"] u by (intro mult_right_mono) simp_all
  also have "\<dots> = power_int 2 e / 2 ^ 53"
  proof -
    have "ulp = power_int 2 e / 2 ^ 52"
      unfolding ulp_def by (simp add: power_int_diff)
    then show ?thesis by simp
  qed
  also have "\<dots> \<le> q / 2 ^ 53"
    using floor_log2_le [OF assms] assms by (simp add: e_def divide_right_mono)
  finally show ?thesis .
qed

lemma round_to_double_range:
  assumes "0 < q" and "q \<le> 100"
  shows "0 \<le> round_to_double q \<and> round_to_double q \<le> 100"
proof -
  define e where "e = floor_log2 \<bar>q\<bar>"
  define ulp :: rat where "ulp = power_int 2 (e - 52)"
  have u: "0 < ulp" by (simp add: ulp_def)
  have r: "round_to_double q = of_int (round_half_even (q / ulp)) * ulp"
    using assms by (simp add: round_to_double_def Let_def e_def ulp_def)
  have pe: "power_int 2 e \<le> q" using floor_log2_le [OF assms(1)] assms(1) by (simp add: e_def)
  have e6: "e \<le> 6"
  proof (rule ccontr)
    assume "\<not> e \<le> 6"
    then have "7 \<le> e" by simp
    then have "power_int (2::rat) 7 \<le> power_int 2 e" by (intro power_int_increasing) simp_all
    moreover have "power_int (2::rat) 7 = 128" by (simp add: power_int_def)
    ultimately show False using pe assms(2) by simp
  qed
  have lo: "0 \<le> round_to_double q"
    using round_half_even_nonneg [of "q / ulp"] assms(1) u by (simp add: r)
  define N :: int where "N = 100 * 2 ^ nat (52 - e)"
  have Nu: "of_int N * ulp = 100"
  proof -
    have "(2::rat) ^ nat (52 - e) = power_int 2 (52 - e)"
      using e6 by (simp add: power_int_def)
    then have "(of_int N :: rat) * ulp = 100 * (power_int 2 (52 - e) * power_int 2 (e - 52))"
      by (simp add: N_def ulp_def)
    also have "power_int (2::rat) (52 - e) * power_int 2 (e - 52) = power_int 2 0"
      by (subst power_int_add [symmetric]) simp_all
    finally show ?thesis by simp
  qed
  have "q / ulp \<le> of_int N"
  proof -
    have "q / ulp \<le> 100 / ulp" using assms(2) u by (simp add: divide_right_mono)
    also have "100 / ulp = of_int N" using Nu u by (simp add: field_simps)
    finally show ?thesis .
  qed
  from round_half_even_le_int [OF this]
  have "(of_int (round_half_even (q / ulp)) :: rat) \<le> of_int N" by (simp only: of_int_le_iff)
  then have "of_int (round_half_even (q / ulp)) * ulp \<le> of_int N * ulp"
    using u by (intro mult_right_mono) simp_all
  with Nu r lo show ?thesis by simp
qed

lemma sum_list_bounds:
  "\<forall>c\<in>set cs. 0 < c \<and> c \<le> (100::int) \<Longrightarrow>
     int (length cs) \<le> sum_list cs \<and> sum_list cs \<le> 100 * int (length cs)"
  by (induction cs) auto

lemma exact_mean_bounds:
  assumes "cs \<noteq> []" and "\<forall>c\<in>set cs. 0 < c \<and> c \<le> (100::int)"
  shows "0 < exact_mean cs \<and> exact_mean cs \<le> 100"
proof -
  from assms(1) have l: "0 < int (length cs)" by simp
  from sum_list_bounds [OF assms(2)]
  have s: "int (length cs) \<le> sum_list cs" "sum_list cs \<le> 100 * int (length cs)" by auto
  have "(of_int (sum_list cs) :: rat) \<le> of_int (100 * int (length cs))"
    using s(2) by (simp only: of_int_le_iff)
  then have "(of_int (sum_list cs) :: rat) / of_int (int (length cs)) \<le> 100"
    using l by (simp add: divide_le_eq)
  moreover have "0 < (of_int (sum_list cs) :: rat) / of_int (int (length cs))"
  proof -
    from s(1) l have "0 < sum_list cs" by linarith
    then have "0 < (of_int (sum_list cs) :: rat)" by simp
    moreover from l have "0 < (of_int (int (length cs)) :: rat)" by simp
    ultimately show ?thesis by (rule divide_pos_pos)
  qed
  ultimately show ?thesis using assms(1) by (simp add: exact_mean_def)
qed

lemma average_confidence_rounds:
  "average_confidence cs = (if cs = [] then 0 else round_to_double (exact_mean cs))"
  by (simp add: average_confidence_def exact_mean_def)

lemma average_confidence_range:
  assumes "\<forall>c\<in>set cs. 0 < c \<and> c \<le> (100::int)"
  shows "0 \<le> average_confidence cs \<and> average_confidence cs \<le> 100
         \<and> \<bar>average_confidence cs - exact_mean cs\<bar> \<le> exact_mean cs / 2 ^ 53"
proof (cases "cs = []")
  case True
  then show ?thesis by (simp add: average_confidence_def exact_mean_def)
next
  case False
  from exact_mean_bounds [OF False assms]
  have m: "0 < exact_mean cs" "exact_mean cs \<le> 100" by auto
  from round_to_double_range [OF m] round_to_double_error [OF m(1)] False
  show ?thesis by (simp add: average_confidence_rounds)
qed

text \<open>
  Claim C5, as the spec states it, fails: the reported confidence is a double, and the
  double nearest to the arithmetic mean need not be the mean. For the confidences 10, 20
  and 25 the mean is 55/3, and the pass reports 5160374573028693 / 2^48 (which Python
  prints as 18.333333333333332).
\<close>

theorem average_confidence_not_exact_mean:
  "ocr_single_pass three_token_engine () 6 ''default'' =
     Some \<lparr> ocr_text = ''Total Fat 3g'', confidence = 5160374573028693 / 281474976710656,
            word_count = 3, ocr_method = ''default_psm6'' \<rparr>
   \<and> exact_mean [10, 20, 25] = 55 / 3
   \<and> (5160374573028693 / 281474976710656 :: rat) \<noteq> 55 / 3"
proof -
  have p: "ocr_single_pass three_token_engine () 6 ''default'' =
     Some \<lparr> ocr_text = ''Total Fat 3g'', confidence = 5160374573028693 / 281474976710656,
            word_count = 3, ocr_method = ''default_psm6'' \<rparr>"
    by code_simp
  have m: "exact_mean [10, 20, 25] = 55 / 3" by (simp add: exact_mean_def)
  have n: "(5160374573028693 / 281474976710656 :: rat) \<noteq> 55 / 3" by simp
  from p m n show ?thesis by simp
qed

text \<open>
  Claim C5, amended. When both engine calls return, with integer confidences at most 100
  and string tokens, the pass returns a result; its confidence is the double nearest to the
  arithmetic mean of the strictly positive confidences (so within the mean times 2^-53 of
  it), and 0 when there is no positive confidence; it lies in [0,100], and the word count
  is not negative.
\<close>

theorem ocr_single_pass_average_confidence:
  assumes "image_to_string eng img psm = Returned t"
    and "image_to_data eng img psm = Returned d"
    and "data_conf d = map ConfInt cs"
    and "data_text d = map TextStr ws"
    and "\<forall>c\<in>set cs. c \<le> 100"
  shows "\<exists>r. ocr_single_pass eng img psm name = Some r
     \<and> confidence r =
         (if filter (\<lambda>c. 0 < c) cs = [] then 0
          else round_to_double (exact_mean (filter (\<lambda>c. 0 < c) cs)))
     \<and> \<bar>confidence r - exact_mean (filter (\<lambda>c. 0 < c) cs)\<bar>
         \<le> exact_mean (filter (\<lambda>c. 0 < c) cs) / 2 ^ 53
     \<and> 0 \<le> confidence r \<and> confidence r \<le> 100 \<and> 0 \<le> word_count r"
proof -
  let ?ps = "filter (\<lambda>c. 0 < c) cs"
  let ?r = "\<lparr> ocr_text = t, confidence = average_confidence ?ps,
              word_count = int (length (filter (\<lambda>w. py_strip w \<noteq> []) ws)),
              ocr_method = name @ ''_psm'' @ str_nat psm \<rparr>"
  have r: "ocr_single_pass eng img psm name = Some ?r"
    using assms(1-4)
    by (simp add: ocr_single_pass_def positive_confidences_ints nonblank_words_strs)
  have "\<forall>c\<in>set ?ps. 0 < c \<and> c \<le> 100" using assms(5) by simp
  from average_confidence_range [OF this]
  have b: "0 \<le> average_confidence ?ps \<and> average_confidence ?ps \<le> 100
         \<and> \<bar>average_confidence ?ps - exact_mean ?ps\<bar> \<le> exact_mean ?ps / 2 ^ 53" .
  have c: "average_confidence ?ps = (if ?ps = [] then 0 else round_to_double (exact_mean ?ps))"
    by (rule average_confidence_rounds)
  from r b c show ?thesis by simp
qed

theorem ocr_single_pass_average_confidence_witness:
  "ocr_single_pass two_word_engine () 6 ''default'' =
     Some \<lparr> ocr_text = ''Calories 250'', confidence = 75, word_count = 2,
            ocr_method = ''default_psm6'' \<rparr>
   \<and> (\<exists>r. ocr_single_pass two_word_engine () 6 ''default'' = Some r
        \<and> confidence r = round_to_double (exact_mean [90, 60])
        \<and> \<bar>confidence r - exact_mean [90, 60]\<bar> \<le> exact_mean [90, 60] / 2 ^ 53
        \<and> 0 \<le> confidence r \<and> confidence r \<le> 100 \<and> 0 \<le> word_count r)"
proof -
  have p: "ocr_single_pass two_word_engine () 6 ''default'' =
     Some \<lparr> ocr_text = ''Calories 250'', confidence = 75, word_count = 2,
            ocr_method = ''default_psm6'' \<rparr>"
    by code_simp
  have "\<forall>c\<in>set [90, - 1, 60, 0 :: int]. c \<le> 100" by simp
  from ocr_single_pass_average_confidence [of two_word_engine "()" 6 "''Calories 250''"
      "\<lparr> data_conf = map ConfInt [90, - 1, 60, 0],
         data_text = map TextStr [''Calories'', '''', ''250'', '' ''] \<rparr>"
      "[90, - 1, 60, 0]" "[''Calories'', '''', ''250'', '' '']" "''default''", OF _ _ _ _ this]
  have "\<exists>r. ocr_single_pass two_word_engine () 6 ''default'' = Some r
        \<and> confidence r = round_to_double (exact_mean [90, 60])
        \<and> \<bar>confidence r - exact_mean [90, 60]\<bar> \<le> exact_mean [90, 60] / 2 ^ 53
        \<and> 0 \<le> confidence r \<and> confidence r \<le> 100 \<and> 0 \<le> word_count r"
    by (simp add: two_word_engine_def)
  with p show ?thesis by blast
qed

section \<open>Properties of the Field Extractor: calories\<close>








declare search_from_in.simps [simp del]



lemma re_match_in_digit_none:
  "s = [] \<or> \<not> set_matches ops ic False [CDigit] (hd s) \<Longrightarrow>
     re_match_in ops re_digit ic \<lparr> prev_char = pc, remaining = s, group1 = g \<rparr> = []"
  by (cases s) (auto simp: re_digit_def)




lemma py_int_digits:
  "s \<noteq> [] \<Longrightarrow> list_all re_isdigit s \<Longrightarrow> py_int s = Some (int (digits_val s))"
  by (simp add: py_int_def)

lemma of_char_py_lower_char:
  "(of_char (py_lower_char c) :: nat) = (if py_isupper c then of_char c + 32 else of_char c)"
  by (auto simp: py_lower_char_def py_isupper_def Let_def)

lemma of_char_py_upper_char:
  "(of_char (py_upper_char c) :: nat) = (if py_islower_paired c then of_char c - 32 else of_char c)"
  by (auto simp: py_upper_char_def py_islower_paired_def Let_def)

lemma re_isdigit_lower: "re_isdigit (py_lower_char c) = re_isdigit c"
  by (auto simp: re_isdigit_def of_char_py_lower_char py_isupper_def Let_def)

lemma re_isdigit_upper: "re_isdigit (py_upper_char c) = re_isdigit c"
  by (auto simp: re_isdigit_def of_char_py_upper_char py_islower_paired_def Let_def)

lemma py_isspace_lower: "py_isspace (py_lower_char c) = py_isspace c"
  by (auto simp: py_isspace_def of_char_py_lower_char py_isupper_def Let_def)

lemma py_isspace_upper: "py_isspace (py_upper_char c) = py_isspace c"
  by (auto simp: py_isspace_def of_char_py_upper_char py_islower_paired_def Let_def)

lemma cls_space: "cls_matches ic False [CSpace] c = py_isspace c"
  by (auto simp: cls_matches_def py_isspace_lower py_isspace_upper)

lemma cls_digit: "cls_matches ic False [CDigit] c = re_isdigit c"
  by (auto simp: cls_matches_def re_isdigit_lower re_isdigit_upper)

lemma ascii_faithful_latin1: "ascii_faithful latin1"
  by (simp add: ascii_faithful_def latin1_def cls_space cls_digit py_int_digits)








text \<open>
  The hypothesis on \<open>lpre\<close> is about what \<^verbatim>\<open>re.IGNORECASE\<close> matches, not about the
  letters of \<^verbatim>\<open>calorie\<close> alone: with operations under which the dotless i (code point
  305) matches \<^verbatim>\<open>i\<close>, an earlier \<^verbatim>\<open>calor\<close>, dotless i, \<^verbatim>\<open>e 9\<close> is a match of the
  literal and gives the value 9.
\<close>

lemma dotless_i_is_matched: "extract_calories_in sample_code_point_ops
              (code_points ''calor'' @ [305] @ code_points ''e 9 Calories: 250'') =
   Returned (JObj [(''value'', JInt 9), (''unit'', JStr ''kcal''), (''found'', JBool True)])"
  by code_simp

lemma dotless_i_fails_hypothesis: "literal_at sample_code_point_ops True ''calorie''
     (lower_text sample_code_point_ops (code_points ''calor'' @ [305] @ code_points ''e 9 Calories: 250''))"
  by code_simp

section \<open>Properties of the two ingredient splitters\<close>

lemma bind_attempt_Returned:
  "(bind_attempt a f = Returned y) = (\<exists>x. a = Returned x \<and> f x = Returned y)"
  by (cases a) (auto simp: bind_attempt_def)

lemma py_split_not_Nil: "py_split sep s \<noteq> []"
  by (induction s) (auto split: list.splits)

lemma py_split_append_sep: "py_split sep (u @ sep # v) = py_split sep u @ py_split sep v"
proof (induction u)
  case Nil
  then show ?case by simp
next
  case (Cons c u)
  then show ?case
    using py_split_not_Nil [of sep u] by (cases "py_split sep u") auto
qed

declare py_replace.simps [simp del]

lemma py_replace_char: "py_replace [a] [b] s = map (\<lambda>c. if c = a then b else c) s"
proof (induction s)
  case Nil
  then show ?case by (simp add: py_replace.simps)
next
  case (Cons c s)
  then show ?case by (subst py_replace.simps) simp
qed

lemma py_strip_Nil: "py_strip [] = []"
  by (simp add: py_strip_def)

lemma split_ingredients_text_empty:
  assumes "(s = u @ a # b # v \<and> is_separator a \<and> is_separator b) \<or> (s = u @ [a] \<and> is_separator a)"
  shows "[] \<in> set (split_ingredients_text s)"
proof -
  let ?f = "\<lambda>c. if c = CHR '';'' then CHR '','' else c"
  have sep: "is_separator c \<Longrightarrow> ?f c = CHR '',''" for c
    by (auto simp: is_separator_def)
  have "[] \<in> set (py_split CHR '','' (map ?f s))"
  proof -
    from assms consider (consecutive) "s = u @ a # b # v" "is_separator a" "is_separator b"
      | (trailing) "s = u @ [a]" "is_separator a" by blast
    then show ?thesis
    proof cases
      case consecutive
      then have "map ?f s = map ?f u @ CHR '','' # (CHR '','' # map ?f v)"
        using sep by simp
      then show ?thesis by (simp only: py_split_append_sep) simp
    next
      case trailing
      then have "map ?f s = map ?f u @ CHR '','' # []"
        using sep by simp
      then show ?thesis by (simp only: py_split_append_sep) simp
    qed
  qed
  then have "py_strip [] \<in> py_strip ` set (py_split CHR '','' (map ?f s))"
    by (rule imageI)
  then show ?thesis
    by (simp add: split_ingredients_text_def py_replace_char py_strip_Nil)
qed

lemma extract_product_data_ingredients:
  assumes "extract_product_data (JObj kvs) = Returned d"
    and "py_or (json_field (JObj kvs) ''ingredients_text'')
               (json_field (JObj kvs) ''ingredients_text_tr'') = JStr s"
    and "s \<noteq> []"
  shows "list_field (json_field d ''ingredients'') = map JStr (split_ingredients_text s)"
  using assms
  by (auto simp: extract_product_data_def bind_attempt_Returned Let_def dict_get_def
        dict_get_default_def ingredients_list_of_def list_field_def json_field_def)

lemma ingredients_loop_no_empty:
  "ingredients_loop ps t = Returned r \<Longrightarrow> JStr [] \<notin> set (list_field r)"
  by (induction ps)
     (auto simp: list_field_def json_field_def Let_def split: option.splits)

lemma sample_product_mapped:
  "extract_product_data (JObj sample_product_entries) = Returned sample_product_record"
  by code_simp

text \<open>
  Claim C10. When the ingredients text that the barcode path uses has two separators in a
  row or ends with a separator, the ingredients list of the mapped record holds an empty
  string; the list of the OCR path's ingredient extractor never holds one; and for the
  same raw text \<^verbatim>\<open>sugar,,salt,\<close> the two lists differ.
\<close>

theorem ingredient_lists_disagree:
  "(py_or (json_field (JObj kvs) ''ingredients_text'')
          (json_field (JObj kvs) ''ingredients_text_tr'') = JStr s
      \<and> ((s = u @ a # b # v \<and> is_separator a \<and> is_separator b) \<or> (s = u @ [a] \<and> is_separator a))
      \<and> extract_product_data (JObj kvs) = Returned d
      \<longrightarrow> JStr '''' \<in> set (list_field (json_field d ''ingredients'')))
   \<and> (extract_ingredients t = Returned r \<longrightarrow> JStr '''' \<notin> set (list_field r))
   \<and> bind_attempt (extract_product_data (JObj sample_product_entries))
         (\<lambda>d. Returned (json_field (json_field d ''ingredients'') ''raw'',
                         list_field (json_field d ''ingredients'')))
       = Returned (JStr ''sugar,,salt,'', [JStr ''sugar'', JStr '''', JStr ''salt'', JStr ''''])
   \<and> bind_attempt (extract_ingredients ''Ingredients: sugar,,salt,'')
         (\<lambda>r. Returned (json_field r ''raw'', list_field r))
       = Returned (JStr ''sugar,,salt,'', [JStr ''sugar'', JStr ''salt''])"
proof (intro conjI impI)
  assume h: "py_or (json_field (JObj kvs) ''ingredients_text'')
          (json_field (JObj kvs) ''ingredients_text_tr'') = JStr s
      \<and> ((s = u @ a # b # v \<and> is_separator a \<and> is_separator b) \<or> (s = u @ [a] \<and> is_separator a))
      \<and> extract_product_data (JObj kvs) = Returned d"
  then have ne: "s \<noteq> []" by auto
  from h have "[] \<in> set (split_ingredients_text s)"
    using split_ingredients_text_empty by blast
  moreover from h ne
  have "list_field (json_field d ''ingredients'') = map JStr (split_ingredients_text s)"
    using extract_product_data_ingredients by blast
  ultimately show "JStr '''' \<in> set (list_field (json_field d ''ingredients''))" by auto
next
  assume "extract_ingredients t = Returned r"
  then show "JStr '''' \<notin> set (list_field r)"
    unfolding extract_ingredients_def by (rule ingredients_loop_no_empty)
next
  show "bind_attempt (extract_product_data (JObj sample_product_entries))
         (\<lambda>d. Returned (json_field (json_field d ''ingredients'') ''raw'',
                         list_field (json_field d ''ingredients'')))
       = Returned (JStr ''sugar,,salt,'', [JStr ''sugar'', JStr '''', JStr ''salt'', JStr ''''])"
    by code_simp
next
  show "bind_attempt (extract_ingredients ''Ingredients: sugar,,salt,'')
         (\<lambda>r. Returned (json_field r ''raw'', list_field r))
       = Returned (JStr ''sugar,,salt,'', [JStr ''sugar'', JStr ''salt''])"
    by code_simp
qed

theorem ingredient_lists_disagree_witness:
  "JStr '''' \<in> set (list_field (json_field sample_product_record ''ingredients''))
   \<and> extract_ingredients ''Ingredients: sugar,,salt,'' =
       Returned (JObj [(''list'', JArr [JStr ''sugar'', JStr ''salt'']),
                       (''raw'', JStr ''sugar,,salt,''), (''found'', JBool True)])
   \<and> JStr '''' \<notin> set (list_field (JObj [(''list'', JArr [JStr ''sugar'', JStr ''salt'']),
                       (''raw'', JStr ''sugar,,salt,''), (''found'', JBool True)]))"
proof -
  have m: "py_or (json_field (JObj sample_product_entries) ''ingredients_text'')
             (json_field (JObj sample_product_entries) ''ingredients_text_tr'')
           = JStr ''sugar,,salt,''"
    by (simp add: sample_product_entries_def json_field_def py_or_def)
  have s: "''sugar,,salt,'' = ''sugar'' @ CHR '','' # CHR '','' # ''salt,''
           \<and> is_separator CHR '','' \<and> is_separator CHR '',''"
    by (simp add: is_separator_def)
  have e: "extract_ingredients ''Ingredients: sugar,,salt,'' =
       Returned (JObj [(''list'', JArr [JStr ''sugar'', JStr ''salt'']),
                       (''raw'', JStr ''sugar,,salt,''), (''found'', JBool True)])"
    by code_simp
  from m s e sample_product_mapped
    ingredient_lists_disagree [of sample_product_entries "''sugar,,salt,''" "''sugar''"
      "CHR '',''" "CHR '',''" "''salt,''" sample_product_record "''Ingredients: sugar,,salt,''"
      "JObj [(''list'', JArr [JStr ''sugar'', JStr ''salt'']),
             (''raw'', JStr ''sugar,,salt,''), (''found'', JBool True)]"]
  show ?thesis by blast
qed

section \<open>Properties of the Field Extractor: nutrition facts\<close>

lemma map_of_dict_set: "map_of (dict_set kvs k v) = (map_of kvs)(k \<mapsto> v)"
  by (induction kvs) (auto simp: fun_eq_iff)

lemma nutrient_value_Some:
  "nutrient_value ps t = Returned (Some v) \<Longrightarrow>
     \<exists>p m g. p \<in> set ps \<and> re_search p True t = Some m \<and> group_1 m = Some g \<and> py_float g = Some v"
  by (induction ps) (auto split: option.splits)

lemma nutrition_loop_entries:
  assumes "nutrition_loop rest t acc = Returned (JObj out)"
    and "\<forall>n e. map_of acc n = Some e \<longrightarrow> entry_from_pattern t tbl n e"
    and "set rest \<subseteq> set tbl"
  shows "\<forall>n e. map_of out n = Some e \<longrightarrow> entry_from_pattern t tbl n e"
  using assms
proof (induction rest arbitrary: acc)
  case Nil
  then show ?case by simp
next
  case (Cons np rest)
  obtain nutrient patterns where np: "np = (nutrient, patterns)" by (cases np)
  from Cons.prems(3) np have mem: "(nutrient, patterns) \<in> set tbl" and sub: "set rest \<subseteq> set tbl"
    by auto
  show ?case
  proof (cases "nutrient_value patterns t")
    case Raised
    with Cons.prems(1) np show ?thesis by simp
  next
    case (Returned r)
    show ?thesis
    proof (cases r)
      case None
      with Returned Cons.prems(1) np have "nutrition_loop rest t acc = Returned (JObj out)" by simp
      from Cons.IH [OF this Cons.prems(2) sub] show ?thesis .
    next
      case (Some v)
      let ?e = "JObj [(''value'', JFloat v), (''unit'', JStr (nutrient_unit nutrient))]"
      from Some Returned Cons.prems(1) np
      have l: "nutrition_loop rest t (dict_set acc nutrient ?e) = Returned (JObj out)" by simp
      from nutrient_value_Some [of patterns t v] Some Returned mem
      have "entry_from_pattern t tbl nutrient ?e"
        unfolding entry_from_pattern_def nutrient_unit_def by auto
      with Cons.prems(2)
      have "\<forall>n e. map_of (dict_set acc nutrient ?e) n = Some e \<longrightarrow> entry_from_pattern t tbl n e"
        by (auto simp: map_of_dict_set)
      from Cons.IH [OF l this sub] show ?thesis .
    qed
  qed
qed

lemma nutrition_loop_is_dict: "nutrition_loop rest t acc = Returned d \<Longrightarrow> \<exists>out. d = JObj out"
  by (induction rest arbitrary: acc) (auto split: attempt.splits option.splits)

text \<open>
  Claim C9. The text \<^verbatim>\<open>sodium: 2 g\<close>, in which the sodium amount is written in grams,
  is matched and reported as the value 2 with the unit \<^verbatim>\<open>mg\<close>. In general every entry
  of the extracted nutrition facts holds the number captured by a pattern of its nutrient,
  unchanged, and the unit string \<^verbatim>\<open>mg\<close> for sodium and \<^verbatim>\<open>g\<close> for every other
  nutrient.
\<close>

theorem sodium_unit_not_converted:
  "extract_nutrition_facts ''sodium: 2 g'' =
     Returned (JObj [(''sodium'', JObj [(''value'', JFloat 2), (''unit'', JStr ''mg'')])])
   \<and> (extract_nutrition_facts t = Returned (JObj nutrition) \<and> map_of nutrition nutrient = Some entry
      \<longrightarrow> (\<exists>patterns pattern m g v.
             (nutrient, patterns) \<in> set nutrients \<and> pattern \<in> set patterns
             \<and> re_search pattern True (py_lower t) = Some m
             \<and> group_1 m = Some g \<and> py_float g = Some v
             \<and> entry = JObj [(''value'', JFloat v),
                             (''unit'', JStr (if nutrient = ''sodium'' then ''mg'' else ''g''))]))"
proof (intro conjI impI)
  show "extract_nutrition_facts ''sodium: 2 g'' =
     Returned (JObj [(''sodium'', JObj [(''value'', JFloat 2), (''unit'', JStr ''mg'')])])"
    by code_simp
next
  assume h: "extract_nutrition_facts t = Returned (JObj nutrition) \<and> map_of nutrition nutrient = Some entry"
  then have "nutrition_loop nutrients (py_lower t) [] = Returned (JObj nutrition)"
    by (simp add: extract_nutrition_facts_def)
  from nutrition_loop_entries [OF this, of nutrients] h
  have "entry_from_pattern (py_lower t) nutrients nutrient entry" by simp
  then show "\<exists>patterns pattern m g v.
             (nutrient, patterns) \<in> set nutrients \<and> pattern \<in> set patterns
             \<and> re_search pattern True (py_lower t) = Some m
             \<and> group_1 m = Some g \<and> py_float g = Some v
             \<and> entry = JObj [(''value'', JFloat v),
                             (''unit'', JStr (if nutrient = ''sodium'' then ''mg'' else ''g''))]"
    unfolding entry_from_pattern_def .
qed

theorem sodium_unit_not_converted_witness:
  "extract_nutrition_facts ''Protein 3.5 g Sodium 2g'' =
     Returned (JObj [(''protein'', JObj [(''value'', JFloat (7 / 2)), (''unit'', JStr ''g'')]),
                     (''sodium'', JObj [(''value'', JFloat 2), (''unit'', JStr ''mg'')])])
   \<and> (\<exists>patterns pattern m g v.
         (''sodium'', patterns) \<in> set nutrients \<and> pattern \<in> set patterns
         \<and> re_search pattern True (py_lower ''Protein 3.5 g Sodium 2g'') = Some m
         \<and> group_1 m = Some g \<and> py_float g = Some v
         \<and> JObj [(''value'', JFloat 2), (''unit'', JStr ''mg'')] =
             JObj [(''value'', JFloat v), (''unit'', JStr ''mg'')])"
proof -
  have e: "extract_nutrition_facts ''Protein 3.5 g Sodium 2g'' =
     Returned (JObj [(''protein'', JObj [(''value'', JFloat (7 / 2)), (''unit'', JStr ''g'')]),
                     (''sodium'', JObj [(''value'', JFloat 2), (''unit'', JStr ''mg'')])])"
    by code_simp
  have m: "map_of [(''protein'', JObj [(''value'', JFloat (7 / 2)), (''unit'', JStr ''g'')]),
                   (''sodium'', JObj [(''value'', JFloat 2), (''unit'', JStr ''mg'')])] ''sodium''
           = Some (JObj [(''value'', JFloat 2), (''unit'', JStr ''mg'')])"
    by simp
  from e m sodium_unit_not_converted [of "''Protein 3.5 g Sodium 2g''"
      "[(''protein'', JObj [(''value'', JFloat (7 / 2)), (''unit'', JStr ''g'')]),
        (''sodium'', JObj [(''value'', JFloat 2), (''unit'', JStr ''mg'')])]"
      "''sodium''" "JObj [(''value'', JFloat 2), (''unit'', JStr ''mg'')]"]
  show ?thesis by simp
qed

section \<open>Properties of the Canonical Schema Mapper and the Orchestrator\<close>

lemma extract_product_data_shape:
  assumes "extract_product_data p = Returned d"
  shows "dict_keys d = barcode_record_keys \<and> json_field d ''source'' = JStr ''openfoodfacts''
         \<and> py_truthy d"
  using assms
  by (auto simp: extract_product_data_def bind_attempt_Returned Let_def dict_keys_def
        barcode_record_keys_def json_field_def)

lemma get_product_info_Some:
  "get_product_info h b = Some d \<Longrightarrow> \<exists>p. extract_product_data p = Returned d"
  by (auto simp: get_product_info_def split: http_outcome.splits attempt.splits if_splits)

lemma scan_and_fetch_Some:
  "scan_and_fetch sc h img = Some d \<Longrightarrow> \<exists>p. extract_product_data p = Returned d"
  by (auto simp: scan_and_fetch_def split: option.splits if_splits dest: get_product_info_Some)

lemma map_fst_dict_set_new:
  "map fst kvs = ks \<Longrightarrow> k \<notin> set ks \<Longrightarrow> map fst (dict_set kvs k v) = ks @ [k]"
  by (induction kvs arbitrary: ks) auto

lemma extract_food_data_keys:
  "extract_food_data t = Returned sd \<Longrightarrow>
     map fst sd = [''calories'', ''serving_size'', ''ingredients'', ''nutrition_facts'', ''allergens'']"
  by (auto simp: extract_food_data_def bind_attempt_Returned Let_def)

lemma upload_image_json_cases:
  assumes "upload_image env file = JSONResponse r" and "json_field r ''data'' \<noteq> JNull"
  shows "(\<exists>p d. extract_product_data p = Returned d
            \<and> r = JObj [(''success'', JBool True),
                        (''message'', JStr ''Product found via barcode from OpenFoodFacts''),
                        (''method'', JStr ''barcode''),
                        (''data'', d)])
         \<or> (\<exists>raw_text sd. extract_food_data raw_text = Returned sd
            \<and> r = JObj [(''success'', JBool True),
                        (''message'', JStr ''Image processed successfully via OCR''),
                        (''method'', JStr ''ocr''),
                        (''data'', JObj (dict_set sd ''source'' (JStr ''ocr''))),
                        (''raw_text'', JStr (take 500 raw_text))])"
proof -
  have ocr: "ocr_fallback env img = JSONResponse r \<Longrightarrow> ?thesis" for img
    using assms(2)
    by (auto simp: ocr_fallback_def json_field_def split: attempt.splits if_splits)
  from assms(1) show ?thesis
    by (auto simp: upload_image_def split: option.splits if_splits attempt.splits
          dest: scan_and_fetch_Some ocr)
qed




text \<open>
  Claim C2, amended. The top-level keys of a record depend on the branch only: a record of
  the barcode branch has the keys of \<^const>\<open>barcode_record_keys\<close>, a record of the OCR
  branch the keys of \<^const>\<open>ocr_record_keys\<close>, whatever the input is.
\<close>

theorem record_key_sets:
  "upload_image env file = JSONResponse r \<and> json_field r ''data'' \<noteq> JNull
   \<longrightarrow> (json_field r ''method'' = JStr ''barcode''
          \<and> dict_keys (json_field r ''data'') = barcode_record_keys)
       \<or> (json_field r ''method'' = JStr ''ocr''
          \<and> dict_keys (json_field r ''data'') = ocr_record_keys)"
proof
  assume h: "upload_image env file = JSONResponse r \<and> json_field r ''data'' \<noteq> JNull"
  from upload_image_json_cases [of env "file" r] h
  consider (barcode) p d where "extract_product_data p = Returned d"
      "r = JObj [(''success'', JBool True),
                 (''message'', JStr ''Product found via barcode from OpenFoodFacts''),
                 (''method'', JStr ''barcode''), (''data'', d)]"
    | (ocr) raw_text sd where "extract_food_data raw_text = Returned sd"
      "r = JObj [(''success'', JBool True),
                 (''message'', JStr ''Image processed successfully via OCR''),
                 (''method'', JStr ''ocr''),
                 (''data'', JObj (dict_set sd ''source'' (JStr ''ocr''))),
                 (''raw_text'', JStr (take 500 raw_text))]"
    by blast
  then show "(json_field r ''method'' = JStr ''barcode''
          \<and> dict_keys (json_field r ''data'') = barcode_record_keys)
       \<or> (json_field r ''method'' = JStr ''ocr''
          \<and> dict_keys (json_field r ''data'') = ocr_record_keys)"
  proof cases
    case barcode
    from extract_product_data_shape [OF barcode(1)] barcode(2) show ?thesis
      by (simp add: json_field_def)
  next
    case ocr
    have "map fst (dict_set sd ''source'' (JStr ''ocr'')) =
        [''calories'', ''serving_size'', ''ingredients'', ''nutrition_facts'', ''allergens'']
        @ [''source'']"
      by (rule map_fst_dict_set_new [OF extract_food_data_keys [OF ocr(1)]]) simp
    with ocr(2) show ?thesis
      by (simp add: json_field_def dict_keys_def ocr_record_keys_def)
  qed
qed

lemma upload_barcode_env: "upload_image barcode_env sample_file = JSONResponse barcode_response"
  by code_simp



lemma upload_no_barcode_env:
  "upload_image no_barcode_env sample_file = JSONResponse ocr_response"
  by code_simp

text \<open>
  Claim C2, as the spec states it, fails: the record of the barcode branch has fourteen
  top-level keys, the record of the OCR branch has six.
\<close>

theorem record_key_sets_counterexample:
  "upload_image barcode_env sample_file = JSONResponse barcode_response
   \<and> upload_image no_barcode_env sample_file = JSONResponse ocr_response
   \<and> dict_keys (json_field barcode_response ''data'') =
     [''source'', ''barcode'', ''product_name'', ''brands'', ''categories'', ''image_url'',
      ''calories'', ''serving_size'', ''ingredients'', ''nutrition_facts'', ''allergens'',
      ''labels'', ''nova_group'', ''nutriscore_grade'']
   \<and> dict_keys (json_field ocr_response ''data'') =
     [''calories'', ''serving_size'', ''ingredients'', ''nutrition_facts'', ''allergens'', ''source'']"
  using upload_barcode_env upload_no_barcode_env
  by (simp add: barcode_response_def ocr_response_def json_field_def dict_keys_def
        sample_product_record_def)

theorem record_key_sets_witness:
  "upload_image barcode_env sample_file = JSONResponse barcode_response
   \<and> json_field barcode_response ''data'' \<noteq> JNull
   \<and> ((json_field barcode_response ''method'' = JStr ''barcode''
          \<and> dict_keys (json_field barcode_response ''data'') = barcode_record_keys)
       \<or> (json_field barcode_response ''method'' = JStr ''ocr''
          \<and> dict_keys (json_field barcode_response ''data'') = ocr_record_keys))"
proof -
  have d: "json_field barcode_response ''data'' \<noteq> JNull"
    by (simp add: barcode_response_def json_field_def sample_product_record_def)
  from upload_barcode_env d record_key_sets [of barcode_env sample_file barcode_response]
  show ?thesis by blast
qed

lemma get_product_info_failure:
  assumes "h (api_base_url @ ''/'' @ barcode) = HttpTimeout
           \<or> h (api_base_url @ ''/'' @ barcode) = HttpError
           \<or> (\<exists>code body. h (api_base_url @ ''/'' @ barcode) = HttpResponse code body
                \<and> (code < 200 \<or> 299 < code \<or> body = Raised
                    \<or> (\<exists>data. body = Returned data
                          \<and> (\<forall>s. dict_get data ''status'' = Returned s \<longrightarrow> \<not> py_equals_one s))))"
  shows "get_product_info h barcode = None"
  using assms
  by (auto simp: get_product_info_def split: attempt.splits)

lemma ocr_fallback_method:
  "ocr_fallback env img = JSONResponse r \<Longrightarrow> json_field r ''method'' = JStr ''ocr''"
  by (auto simp: ocr_fallback_def json_field_def split: attempt.splits if_splits)

text \<open>
  Claim C8. A lookup that times out, fails with another exception of the request, answers
  with a status outside 200 to 299, with a body that is no JSON, or with a body whose
  \<^verbatim>\<open>status\<close> does not compare equal to 1, gives \<open>None\<close>; the orchestrator then
  returns what the OCR fallback returns, whose responses have the method \<^verbatim>\<open>ocr\<close>.
\<close>

theorem lookup_failure_falls_back_to_ocr:
  "((http_get env (api_base_url @ ''/'' @ barcode) = HttpTimeout
      \<or> http_get env (api_base_url @ ''/'' @ barcode) = HttpError
      \<or> (\<exists>code body. http_get env (api_base_url @ ''/'' @ barcode) = HttpResponse code body
            \<and> (code < 200 \<or> 299 < code \<or> body = Raised
                \<or> (\<exists>data. body = Returned data
                      \<and> (\<forall>s. dict_get data ''status'' = Returned s \<longrightarrow> \<not> py_equals_one s)))))
     \<longrightarrow> get_product_info (http_get env) barcode = None)
   \<and> (content_type f = Some ct \<and> take 6 ct = ''image/''
      \<and> imdecode env (contents f) = Returned (Some img)
      \<and> detect_barcode (scan env) img = Some barcode
      \<and> get_product_info (http_get env) barcode = None
     \<longrightarrow> upload_image env f = ocr_fallback env img)
   \<and> (ocr_fallback env img = JSONResponse r \<longrightarrow> json_field r ''method'' = JStr ''ocr'')"
proof (intro conjI impI)
  assume "http_get env (api_base_url @ ''/'' @ barcode) = HttpTimeout
      \<or> http_get env (api_base_url @ ''/'' @ barcode) = HttpError
      \<or> (\<exists>code body. http_get env (api_base_url @ ''/'' @ barcode) = HttpResponse code body
            \<and> (code < 200 \<or> 299 < code \<or> body = Raised
                \<or> (\<exists>data. body = Returned data
                      \<and> (\<forall>s. dict_get data ''status'' = Returned s \<longrightarrow> \<not> py_equals_one s))))"
  then show "get_product_info (http_get env) barcode = None"
    by (rule get_product_info_failure)
next
  assume "content_type f = Some ct \<and> take 6 ct = ''image/''
      \<and> imdecode env (contents f) = Returned (Some img)
      \<and> detect_barcode (scan env) img = Some barcode
      \<and> get_product_info (http_get env) barcode = None"
  then show "upload_image env f = ocr_fallback env img"
    by (simp add: upload_image_def scan_and_fetch_def)
next
  assume "ocr_fallback env img = JSONResponse r"
  then show "json_field r ''method'' = JStr ''ocr''" by (rule ocr_fallback_method)
qed


theorem lookup_failure_falls_back_to_ocr_witness:
  "get_product_info (http_get (env_with_lookup HttpTimeout)) ''8690504012345'' = None
   \<and> get_product_info (http_get (env_with_lookup (HttpResponse 404 Raised))) ''8690504012345'' = None
   \<and> get_product_info (http_get (env_with_lookup (HttpResponse 200 Raised))) ''8690504012345'' = None
   \<and> get_product_info
         (http_get (env_with_lookup (HttpResponse 200 (Returned (JObj [(''status'', JInt 0)])))))
         ''8690504012345'' = None
   \<and> upload_image (env_with_lookup HttpTimeout) sample_file
       = ocr_fallback (env_with_lookup HttpTimeout) ()
   \<and> ocr_fallback (env_with_lookup HttpTimeout) () = JSONResponse ocr_response
   \<and> json_field ocr_response ''method'' = JStr ''ocr''"
proof -
  let ?b = "''8690504012345''"
  have o: "ocr_fallback (env_with_lookup HttpTimeout) () = JSONResponse ocr_response"
    by code_simp
  have h1: "http_get (env_with_lookup HttpTimeout) (api_base_url @ ''/'' @ ?b) = HttpTimeout"
    by (simp add: env_with_lookup_def)
  have h2: "\<exists>code body. http_get (env_with_lookup (HttpResponse 404 Raised)) (api_base_url @ ''/'' @ ?b)
               = HttpResponse code body \<and> 299 < code"
    by (simp add: env_with_lookup_def)
  have h3: "\<exists>code body. http_get (env_with_lookup (HttpResponse 200 Raised)) (api_base_url @ ''/'' @ ?b)
               = HttpResponse code body \<and> body = Raised"
    by (simp add: env_with_lookup_def)
  have h4: "\<exists>code body. http_get (env_with_lookup (HttpResponse 200 (Returned (JObj [(''status'', JInt 0)]))))
                 (api_base_url @ ''/'' @ ?b) = HttpResponse code body
               \<and> (\<exists>data. body = Returned data
                     \<and> (\<forall>s. dict_get data ''status'' = Returned s \<longrightarrow> \<not> py_equals_one s))"
    by (simp add: env_with_lookup_def dict_get_def dict_get_default_def)
  have c: "content_type sample_file = Some ''image/jpeg'' \<and> take 6 ''image/jpeg'' = ''image/''
      \<and> imdecode (env_with_lookup HttpTimeout) (contents sample_file) = Returned (Some ())
      \<and> detect_barcode (scan (env_with_lookup HttpTimeout)) () = Some ?b"
    by (simp add: sample_file_def env_with_lookup_def barcode_env_def detect_barcode_def)
  note t = lookup_failure_falls_back_to_ocr
  from h1 t [of "env_with_lookup HttpTimeout" ?b]
  have g1: "get_product_info (http_get (env_with_lookup HttpTimeout)) ?b = None" by blast
  from h2 t [of "env_with_lookup (HttpResponse 404 Raised)" ?b]
  have g2: "get_product_info (http_get (env_with_lookup (HttpResponse 404 Raised))) ?b = None"
    by blast
  from h3 t [of "env_with_lookup (HttpResponse 200 Raised)" ?b]
  have g3: "get_product_info (http_get (env_with_lookup (HttpResponse 200 Raised))) ?b = None"
    by blast
  from h4 t [of "env_with_lookup (HttpResponse 200 (Returned (JObj [(''status'', JInt 0)])))" ?b]
  have g4: "get_product_info
         (http_get (env_with_lookup (HttpResponse 200 (Returned (JObj [(''status'', JInt 0)]))))) ?b
        = None"
    by blast
  from c g1 t [of "env_with_lookup HttpTimeout" ?b sample_file "''image/jpeg''" "()" ocr_response]
  have u: "upload_image (env_with_lookup HttpTimeout) sample_file
       = ocr_fallback (env_with_lookup HttpTimeout) ()" by blast
  from o t [of "env_with_lookup HttpTimeout" ?b sample_file "''image/jpeg''" "()" ocr_response]
  have m: "json_field ocr_response ''method'' = JStr ''ocr''" by blast
  from g1 g2 g3 g4 u o m show ?thesis by blast
qed

end
